theory Spec2Isabelle
  imports Complex_Main "HOL-Library.Word"
begin

text \<open>
  A Telegram bot registers teachers: it collects five fields step by step, hands the
  application to a reviewer, and on approval sends a payment link whose confirmation
  arrives on a webhook. This theory embeds the handlers of the bot as functions on the
  state of the process and proves what they do to a session. A handler run is taken
  as a whole: what another event does while a run waits for the transport or the
  gateway is not modelled.
\<close>

section \<open>JavaScript strings\<close>

text \<open>
  A JavaScript string is a sequence of UTF-16 code units, and \<open>length\<close>, \<open>===\<close>,
  \<open>includes\<close>, \<open>split\<close> and \<open>trim\<close> all work on code units. A string
  is therefore a list of 16-bit words; \<open>js\<close> writes an ASCII literal.
\<close>

type_synonym unit16 = "16 word"
type_synonym jsstring = "unit16 list"

definition js :: "string \<Rightarrow> jsstring" where
  "js = map (\<lambda>c. of_nat (of_char c))"

text \<open>
  WhiteSpace and LineTerminator of ECMAScript: what \<open>trim\<close>, the class \<open>\s\<close> and
  the numeric reading of a string skip.
\<close>

definition is_space :: "unit16 \<Rightarrow> bool" where
  "is_space c \<longleftrightarrow>
     c = 0x9 \<or> c = 0xA \<or> c = 0xB \<or> c = 0xC \<or> c = 0xD \<or> c = 0x20 \<or> c = 0xA0 \<or>
     c = 0x1680 \<or> (0x2000 \<le> c \<and> c \<le> 0x200A) \<or> c = 0x2028 \<or> c = 0x2029 \<or>
     c = 0x202F \<or> c = 0x205F \<or> c = 0x3000 \<or> c = 0xFEFF"

definition is_digit :: "unit16 \<Rightarrow> bool" where
  "is_digit c \<longleftrightarrow> 0x30 \<le> c \<and> c \<le> 0x39"

definition trim :: "jsstring \<Rightarrow> jsstring" where
  "trim s = rev (dropWhile is_space (rev (dropWhile is_space s)))"

text \<open>
  \<open>toLowerCase\<close>, on the code units whose lower-case form is an ASCII letter: A to Z
  and U+212A (KELVIN SIGN, which lowers to k). Every other cased letter lowers to code
  units outside ASCII and is left in place here; the program compares the result with
  the ASCII literal "skip" only, and that comparison is exact.
\<close>

definition lower_unit :: "unit16 \<Rightarrow> unit16" where
  "lower_unit c =
     (if 0x41 \<le> c \<and> c \<le> 0x5A then c + 0x20 else if c = 0x212A then 0x6B else c)"

definition toLowerCase :: "jsstring \<Rightarrow> jsstring" where
  "toLowerCase s = map lower_unit s"

fun startsWith :: "'a list \<Rightarrow> 'a list \<Rightarrow> bool" where
  "startsWith s [] = True"
| "startsWith [] (p # ps) = False"
| "startsWith (c # cs) (p # ps) = (c = p \<and> startsWith cs ps)"

fun js_includes :: "'a list \<Rightarrow> 'a list \<Rightarrow> bool" where
  "js_includes [] sub = (sub = [])"
| "js_includes (c # cs) sub = (startsWith (c # cs) sub \<or> js_includes cs sub)"

text \<open>
  \<open>s.split(sep)\<close> for a separator of one code unit: the pieces between the
  separators, never an empty array (\<open>"".split("-")\<close> is \<open>[""]\<close>).
\<close>

fun split :: "'a list \<Rightarrow> 'a \<Rightarrow> 'a list list" where
  "split [] sep = [[]]"
| "split (c # cs) sep =
     (if c = sep then [] # split cs sep
      else (case split cs sep of [] \<Rightarrow> [[c]] | w # ws \<Rightarrow> (c # w) # ws))"

text \<open>\<open>xs.pop()\<close>: the last element, \<open>undefined\<close> on an empty array.\<close>

fun pop :: "'a list \<Rightarrow> 'a option" where
  "pop [] = None"
| "pop [x] = Some x"
| "pop (x # y # ys) = pop (y # ys)"

text \<open>\<open>xs[i]\<close>: \<open>undefined\<close> out of range.\<close>

fun at_index :: "'a list \<Rightarrow> nat \<Rightarrow> 'a option" where
  "at_index [] i = None"
| "at_index (x # xs) 0 = Some x"
| "at_index (x # xs) (Suc i) = at_index xs i"

section \<open>Numbers as strings and back\<close>

text \<open>
  Telegram identifiers and \<open>Date.now()\<close> are integers below \<open>2^53\<close>, which
  \<open>String\<close> writes in decimal, with a leading minus sign when negative.
\<close>

definition digit_unit :: "nat \<Rightarrow> unit16" where
  "digit_unit d = of_nat (48 + d)"

fun digits :: "nat \<Rightarrow> jsstring" where
  "digits n = (if n < 10 then [digit_unit n] else digits (n div 10) @ [digit_unit (n mod 10)])"

declare digits.simps [simp del]

definition js_String :: "int \<Rightarrow> jsstring" where
  "js_String n = (if n < 0 then 0x2D # digits (nat (- n)) else digits (nat n))"

text \<open>
  \<open>Number(s)\<close> on the decimal integer literals: white space around the literal is
  skipped, the empty string reads as 0, and a sign may come first. Any other text is
  \<open>NaN\<close>. The model leaves out the other numeric notations of JavaScript
  (a fraction, an exponent, a radix prefix, Infinity) and the literals of magnitude
  \<open>2^53\<close> or more, which \<open>Number\<close> rounds: it reads them as \<open>NaN\<close> too, and
  like \<open>NaN\<close> they then name no session, the sessions being keyed by identifiers
  below \<open>2^53\<close>.
\<close>

datatype jsnum = Num int | NaN

definition digit_value :: "unit16 \<Rightarrow> nat" where
  "digit_value c = unat c - 48"

definition decimal_value :: "jsstring \<Rightarrow> nat" where
  "decimal_value ds = foldl (\<lambda>acc c. 10 * acc + digit_value c) 0 ds"

definition unsigned_literal :: "jsstring \<Rightarrow> nat option" where
  "unsigned_literal ds =
     (if ds \<noteq> [] \<and> list_all is_digit ds \<and> decimal_value ds < 2 ^ 53
      then Some (decimal_value ds) else None)"

definition js_Number :: "jsstring option \<Rightarrow> jsnum" where
  "js_Number x =
     (case x of
        None \<Rightarrow> NaN
      | Some s \<Rightarrow>
          (case trim s of
             [] \<Rightarrow> Num 0
           | c # r \<Rightarrow>
               if c = 0x2D then (case unsigned_literal r of None \<Rightarrow> NaN | Some n \<Rightarrow> Num (- int n))
               else if c = 0x2B then (case unsigned_literal r of None \<Rightarrow> NaN | Some n \<Rightarrow> Num (int n))
               else (case unsigned_literal (c # r) of None \<Rightarrow> NaN | Some n \<Rightarrow> Num (int n))))"

section \<open>Regular expressions\<close>

text \<open>
  The regular expressions of the validators use classes, sequence, alternative and
  repetition only, so a match is membership in a regular language, decided here by
  derivatives. \<open>lang\<close> is the language, used to state what a validator accepts.
\<close>

datatype 'a regex =
    Eps
  | Cls "'a \<Rightarrow> bool"
  | Alt "'a regex" "'a regex"
  | Cat "'a regex" "'a regex"
  | Rep "'a regex"

fun nullable :: "'a regex \<Rightarrow> bool" where
  "nullable Eps = True"
| "nullable (Cls p) = False"
| "nullable (Alt r q) = (nullable r \<or> nullable q)"
| "nullable (Cat r q) = (nullable r \<and> nullable q)"
| "nullable (Rep r) = True"

text \<open>\<open>Cls (\<lambda>_. False)\<close> is the expression that matches nothing.\<close>

fun deriv :: "'a \<Rightarrow> 'a regex \<Rightarrow> 'a regex" where
  "deriv c Eps = Cls (\<lambda>_. False)"
| "deriv c (Cls p) = (if p c then Eps else Cls (\<lambda>_. False))"
| "deriv c (Alt r q) = Alt (deriv c r) (deriv c q)"
| "deriv c (Cat r q) =
     (if nullable r then Alt (Cat (deriv c r) q) (deriv c q) else Cat (deriv c r) q)"
| "deriv c (Rep r) = Cat (deriv c r) (Rep r)"

text \<open>\<open>/^r$/.test(s)\<close>: the whole string matches.\<close>

fun matches :: "'a regex \<Rightarrow> 'a list \<Rightarrow> bool" where
  "matches r [] = nullable r"
| "matches r (c # cs) = matches (deriv c r) cs"

text \<open>\<open>/r/.test(s)\<close>, without anchors: some substring matches.\<close>

definition search :: "'a regex \<Rightarrow> 'a list \<Rightarrow> bool" where
  "search r s = matches (Cat (Rep (Cls (\<lambda>_. True))) (Cat r (Rep (Cls (\<lambda>_. True))))) s"

abbreviation chr :: "unit16 \<Rightarrow> unit16 regex" where
  "chr c \<equiv> Cls (\<lambda>x. x = c)"

text \<open>\<open>r+\<close>, \<open>r?\<close>, a literal text and \<open>r{n}\<close>.\<close>

definition many1 :: "'a regex \<Rightarrow> 'a regex" where
  "many1 r = Cat r (Rep r)"

definition maybe :: "'a regex \<Rightarrow> 'a regex" where
  "maybe r = Alt r Eps"

fun lit :: "jsstring \<Rightarrow> unit16 regex" where
  "lit [] = Eps"
| "lit (c # cs) = Cat (chr c) (lit cs)"

fun exactly :: "nat \<Rightarrow> 'a regex \<Rightarrow> 'a regex" where
  "exactly 0 r = Eps"
| "exactly (Suc n) r = Cat r (exactly n r)"

inductive_set star :: "'a list set \<Rightarrow> 'a list set" for A :: "'a list set" where
  star_empty: "[] \<in> star A"
| star_more: "u \<in> A \<Longrightarrow> v \<in> star A \<Longrightarrow> u @ v \<in> star A"

fun lang :: "'a regex \<Rightarrow> 'a list set" where
  "lang Eps = {[]}"
| "lang (Cls p) = {[c] | c. p c}"
| "lang (Alt r q) = lang r \<union> lang q"
| "lang (Cat r q) = {u @ v | u v. u \<in> lang r \<and> v \<in> lang q}"
| "lang (Rep r) = star (lang r)"

section \<open>The three variants of the program\<close>

text \<open>
  The repository holds the same bot three times: \<open>index.js\<close> and two further
  files whose names are not known, called the first and the second unnamed file here
  (\<open>Part000\<close> and \<open>Part001\<close>). They share the session model, the fee policy, the
  sweep and the registration steps, and differ in the button labels, the validators,
  the reviewer callbacks and the payment webhook.
\<close>

datatype variant = IndexJs | Part000 | Part001

datatype js_error = TypeError | TransportError

section \<open>Validators\<close>

text \<open>
  \<open>isValidYouTubeUrl\<close>: \<open>false\<close> on a missing or empty text; then a substring
  test (\<open>index.js\<close>, the first unnamed file) or a search for one of five
  patterns without regard to ASCII case (the second unnamed file).
\<close>

definition same_letter :: "unit16 \<Rightarrow> unit16 \<Rightarrow> bool" where
  "same_letter p c \<longleftrightarrow>
     (if 0x41 \<le> c \<and> c \<le> 0x5A then c + 0x20 else c) =
     (if 0x41 \<le> p \<and> p \<le> 0x5A then p + 0x20 else p)"

fun lit_i :: "jsstring \<Rightarrow> unit16 regex" where
  "lit_i [] = Eps"
| "lit_i (c # cs) = Cat (Cls (same_letter c)) (lit_i cs)"

definition youtube_paths :: "jsstring list" where
  "youtube_paths =
     [js ''youtube.com/channel/'', js ''youtube.com/c/'', js ''youtube.com/user/'',
      js ''youtu.be/'', js ''youtube.com/@'']"

definition isValidYouTubeUrl :: "variant \<Rightarrow> jsstring option \<Rightarrow> bool" where
  "isValidYouTubeUrl v url =
     (case url of
        None \<Rightarrow> False
      | Some u \<Rightarrow>
          if u = [] then False
          else if v = Part001 then list_ex (\<lambda>p. search (lit_i p) u) youtube_paths
          else list_ex (\<lambda>p. js_includes u p) youtube_paths)"

text \<open>
  \<open>isValidEmail\<close>. Both forms call \<open>email.toLowerCase()\<close> first, a TypeError when
  the argument is \<open>undefined\<close>. Then \<open>index.js\<close> and the first unnamed file ask
  for an @ and a dot anywhere; the second unnamed file tests
  \<open>/^[^\s@]+@[^\s@]+\.[^\s@]+$/\<close>.
\<close>

definition email_unit :: "unit16 \<Rightarrow> bool" where
  "email_unit c \<longleftrightarrow> \<not> is_space c \<and> c \<noteq> 0x40"

definition emailRegex :: "unit16 regex" where
  "emailRegex =
     Cat (many1 (Cls email_unit))
       (Cat (chr 0x40)
          (Cat (many1 (Cls email_unit)) (Cat (chr 0x2E) (many1 (Cls email_unit)))))"

definition isValidEmail :: "variant \<Rightarrow> jsstring option \<Rightarrow> js_error + bool" where
  "isValidEmail v email =
     (case email of
        None \<Rightarrow> Inl TypeError
      | Some e \<Rightarrow>
          if toLowerCase e = js ''skip'' then Inr True
          else if v = Part001 then Inr (matches emailRegex e)
          else Inr (js_includes e (js ''@'') \<and> js_includes e (js ''.'')))"

text \<open>
  \<open>isValidPhone\<close>: white space removed, then \<open>/^(\+251|0)?9\d{8}$/\<close>, in all
  three variants.
\<close>

definition phoneRegex :: "unit16 regex" where
  "phoneRegex =
     Cat (maybe (Alt (lit (js ''+251'')) (lit (js ''0''))))
       (Cat (chr 0x39) (exactly 8 (Cls is_digit)))"

definition isValidPhone :: "jsstring \<Rightarrow> bool" where
  "isValidPhone phone = matches phoneRegex (filter (\<lambda>c. \<not> is_space c) phone)"

section \<open>Sessions and the process state\<close>

datatype status =
  idle | collecting | pending_review | approved | reapply_required | payment_verified

datatype step =
  step_name | step_phone | step_youtube | step_email | step_subject | step_completed

text \<open>
  A session object. \<open>None\<close> is a property that is \<open>undefined\<close> (or, for
  \<open>step\<close>, \<open>null\<close>). Times are milliseconds since the epoch, as \<open>Date.now()\<close>
  gives them. Amounts are what the gateway reports. The commission is the product of
  the amount and \<open>TEACHER_PERCENT\<close> in double arithmetic, which rounds (the amount
  100 gives 55.00000000000001): the model records the two factors and does not compute
  the product.
\<close>

datatype double_product = DoubleProduct rat rat

record session =
  step :: "step option"
  status :: status
  createdAt :: "int option"
  lastActivity :: "int option"
  name :: "jsstring option"
  phone :: "jsstring option"
  youtube :: "jsstring option"
  email :: "jsstring option"
  subject :: "jsstring option"
  penalty :: "bool option"
  tx_ref :: "jsstring option"
  paidAmount :: "rat option"
  commission :: "double_product option"
  paymentDate :: "int option"

record limits =
  count :: nat
  resetTime :: int

text \<open>
  The module's variables: \<open>users\<close> (an object keyed by chat identifier),
  \<open>processedTransactions\<close>, \<open>adminReplyTarget\<close> (\<open>None\<close> is \<open>null\<close>) and
  \<open>rateLimit\<close>. A number that is \<open>NaN\<close> is the key of no session.
\<close>

record state =
  users :: "int \<rightharpoonup> session"
  processedTransactions :: "jsstring set"
  adminReplyTarget :: "jsnum option"
  rateLimit :: "int \<rightharpoonup> limits"

definition PRICING_STANDARD :: nat where "PRICING_STANDARD = 99"
definition PRICING_PENALTY :: nat where "PRICING_PENALTY = 149"
definition TEACHER_PERCENT :: rat where "TEACHER_PERCENT = 55 / 100"
definition RATE_LIMIT_WINDOW :: int where "RATE_LIMIT_WINDOW = 60000"
definition MAX_REQUESTS :: nat where "MAX_REQUESTS = 30"
definition SESSION_TIMEOUT :: int where "SESSION_TIMEOUT = 30 * 60 * 1000"

section \<open>Rate limit, fee and sweep\<close>

text \<open>
  One handler run reads the clock several times; the model gives every read of one
  run the same instant \<open>now\<close>.
\<close>

definition checkRateLimit :: "int \<Rightarrow> int \<Rightarrow> (int \<rightharpoonup> limits) \<Rightarrow> bool \<times> (int \<rightharpoonup> limits)" where
  "checkRateLimit now userId rl =
     (let userLimits =
            (case rl userId of
               None \<Rightarrow> \<lparr>count = 0, resetTime = now + RATE_LIMIT_WINDOW\<rparr>
             | Some l \<Rightarrow> l);
          userLimits' =
            (if now > resetTime userLimits
             then \<lparr>count = 1, resetTime = now + RATE_LIMIT_WINDOW\<rparr>
             else userLimits\<lparr>count := count userLimits + 1\<rparr>)
      in (count userLimits' \<le> MAX_REQUESTS, rl(userId \<mapsto> userLimits')))"

text \<open>
  \<open>getFee(user)\<close>, with the session it leaves behind: the flag \<open>penalty\<close> is its
  only write. The function is modelled on a session: its guard \<open>!user\<close> answers a
  call without one, and every caller has looked the session up and found it.
  \<open>!user.createdAt\<close> holds for a missing timestamp and for the timestamp 0.
\<close>

definition hours_since :: "int \<Rightarrow> int \<Rightarrow> rat" where
  "hours_since now created = of_int (now - created) / (1000 * 60 * 60)"

definition getFee :: "int \<Rightarrow> session \<Rightarrow> nat \<times> session" where
  "getFee now user =
     (case createdAt user of
        None \<Rightarrow> (PRICING_STANDARD, user)
      | Some created \<Rightarrow>
          if created = 0 then (PRICING_STANDARD, user)
          else if status user = reapply_required \<or> hours_since now created > 24
          then (PRICING_PENALTY, user\<lparr>penalty := Some True\<rparr>)
          else (PRICING_STANDARD, user\<lparr>penalty := Some False\<rparr>))"

text \<open>
  \<open>cleanupInactiveSessions\<close>. The loop runs over \<open>Object.keys(users)\<close>, the keys
  of the table when the sweep starts, given here as the list \<open>keys\<close>; for each key
  it deletes the session or leaves it alone. A key of that list is in the table when
  the loop reaches it, since the loop deletes no key but the one it is at.
  \<open>user.lastActivity && ...\<close> fails for a missing stamp and for the stamp 0.
\<close>

definition expired :: "int \<Rightarrow> session \<Rightarrow> bool" where
  "expired now user \<longleftrightarrow>
     (case lastActivity user of
        None \<Rightarrow> False
      | Some t \<Rightarrow> t \<noteq> 0 \<and> now - t > SESSION_TIMEOUT \<and>
          (status user = collecting \<or> status user = idle))"

definition sweep_key :: "int \<Rightarrow> int \<Rightarrow> (int \<rightharpoonup> session) \<Rightarrow> (int \<rightharpoonup> session)" where
  "sweep_key now userId us =
     (case us userId of
        None \<Rightarrow> us
      | Some user \<Rightarrow> if expired now user then us(userId := None) else us)"

definition cleanupInactiveSessions :: "int \<Rightarrow> int list \<Rightarrow> state \<Rightarrow> state" where
  "cleanupInactiveSessions now keys s = s\<lparr>users := fold (sweep_key now) keys (users s)\<rparr>"

section \<open>What a handler does to the outside\<close>

text \<open>
  A handler run yields the new state, the calls it made on the chat transport and the
  log, in order, and how it ended. The texts of the messages are presentation; a
  message is named by its kind and the values it carries. A send is listed as made
  and delivered, except where its failure changes what the handler does to the state
  or answers: in the webhook and in the reviewer's reply mode.
\<close>

datatype dest = Chat int | Channel

datatype notice =
    TooManyRequests | Welcome | AdminMessage "jsstring option" | ReplyDelivered
  | AlreadyInProgress | PromptName | Cancelled | ReturnedToPrevious | InvalidName
  | PromptPhone | UseContactButton | InvalidPhone | PromptYoutube | YoutubeRequired
  | InvalidYoutube | PromptEmail | InvalidEmail | PromptSubject | InvalidSubject
  | ReviewRequest int | Submitted | StatusReport status "nat option" | About
  | PaymentLink nat | PaymentLinkError | LinkGenerated nat | GatewayError nat
  | ApprovedPayNow nat | TypeYourReply | NotApproved | FeeFailedNotice
  | PaymentVerifiedNotice rat | PaymentReceived rat jsstring

datatype answer =
    UserNotFound | Unauthorized | TeacherApproved | PaymentLinkFailed | LinkSent nat
  | GatewayFailed | ReplyModeActivated | TeacherRejected | InvalidPaymentRequest
  | LinkReady | PaymentFailed | FeeFailed

datatype mark = MarkApproved | MarkRejected | MarkGenerating | MarkGatewayError

datatype effect =
    Send dest notice
  | Answer answer
  | Edit mark
  | LogError

datatype outcome = Returned | Threw js_error

text \<open>
  How the collaborators answer during one run: the gateway's verification of a
  reference (unreachable, or the \<open>data\<close> of its reply, which may be missing), the
  gateway's answer to a checkout request, and whether a message to a destination is
  delivered (\<open>sendMessage\<close> rejects otherwise).
\<close>

record payment =
  pay_status :: jsstring
  amount :: rat

datatype verification = Unreachable | Reply "payment option"

datatype checkout = CheckoutUrl jsstring | CheckoutRefused | CheckoutFailed

record env =
  verifyTransaction :: verification
  initializeCheckout :: checkout
  delivered :: "dest \<Rightarrow> bool"

section \<open>The payment webhook\<close>

datatype body =
    MissingTxRef | AlreadyProcessed | PaymentNotSuccessful | NoSuchUser | Success
  | InternalServerError | Received | InternalAcknowledged

type_synonym response = "nat \<times> body"

definition mark_paid :: "int \<Rightarrow> rat \<Rightarrow> session \<Rightarrow> session" where
  "mark_paid now amt user =
     user\<lparr>status := payment_verified, paidAmount := Some amt,
          commission := Some (DoubleProduct amt TEACHER_PERCENT), paymentDate := Some now\<rparr>"

text \<open>
  \<open>Number(tx_ref.split("-").pop())\<close>: the owner of a reference.
\<close>

definition owner_of :: "jsstring \<Rightarrow> jsnum" where
  "owner_of ref = js_Number (pop (split ref 0x2D))"

text \<open>
  \<open>app.post("/verify")\<close> of \<open>index.js\<close> and of the second unnamed file. The body's
  \<open>tx_ref\<close> is a string or is missing; \<open>!tx_ref\<close> holds for the empty string too.
  Every exception inside the \<open>try\<close> ends in the \<open>catch\<close>: it logs and answers 500.
\<close>

definition post_verify_index ::
  "int \<Rightarrow> env \<Rightarrow> int \<Rightarrow> jsstring option \<Rightarrow> state \<Rightarrow> state \<times> effect list \<times> response" where
  "post_verify_index ADMIN_ID e now txref s =
     (case txref of
        None \<Rightarrow> (s, [], (400, MissingTxRef))
      | Some ref \<Rightarrow>
          if ref = [] then (s, [], (400, MissingTxRef))
          else if ref \<in> processedTransactions s then (s, [], (200, AlreadyProcessed))
          else
            (case verifyTransaction e of
               Unreachable \<Rightarrow> (s, [LogError], (500, InternalServerError))
             | Reply None \<Rightarrow> (s, [LogError], (500, InternalServerError))
             | Reply (Some d) \<Rightarrow>
                 if pay_status d \<noteq> js ''success'' then (s, [], (200, PaymentNotSuccessful))
                 else
                   (case owner_of ref of
                      NaN \<Rightarrow> (s, [], (404, NoSuchUser))
                    | Num telegramId \<Rightarrow>
                        (case users s telegramId of
                           None \<Rightarrow> (s, [], (404, NoSuchUser))
                         | Some user \<Rightarrow>
                             (let s' = s\<lparr>processedTransactions := insert ref (processedTransactions s),
                                          users := (users s)(telegramId \<mapsto> mark_paid now (amount d) user)\<rparr>
                              in if \<not> delivered e (Chat telegramId)
                                 then (s', [LogError], (500, InternalServerError))
                                 else if \<not> delivered e (Chat ADMIN_ID)
                                 then (s', [Send (Chat telegramId) (PaymentVerifiedNotice (amount d)),
                                            LogError], (500, InternalServerError))
                                 else (s', [Send (Chat telegramId) (PaymentVerifiedNotice (amount d)),
                                            Send (Chat ADMIN_ID) (PaymentReceived (amount d) ref)],
                                       (200, Success)))))))"

text \<open>
  \<open>app.post("/verify")\<close> of the first unnamed file: the same steps, but every path
  answers 200, the \<open>catch\<close> included.
\<close>

definition post_verify_part_000 ::
  "int \<Rightarrow> env \<Rightarrow> int \<Rightarrow> jsstring option \<Rightarrow> state \<Rightarrow> state \<times> effect list \<times> response" where
  "post_verify_part_000 ADMIN_ID e now txref s =
     (case txref of
        None \<Rightarrow> (s, [], (200, MissingTxRef))
      | Some ref \<Rightarrow>
          if ref = [] then (s, [], (200, MissingTxRef))
          else if ref \<in> processedTransactions s then (s, [], (200, AlreadyProcessed))
          else
            (case verifyTransaction e of
               Unreachable \<Rightarrow> (s, [LogError], (200, InternalAcknowledged))
             | Reply None \<Rightarrow> (s, [], (200, Received))
             | Reply (Some d) \<Rightarrow>
                 if pay_status d \<noteq> js ''success'' then (s, [], (200, Received))
                 else
                   (case owner_of ref of
                      NaN \<Rightarrow> (s, [], (200, Received))
                    | Num telegramId \<Rightarrow>
                        (case users s telegramId of
                           None \<Rightarrow> (s, [], (200, Received))
                         | Some user \<Rightarrow>
                             (let s' = s\<lparr>processedTransactions := insert ref (processedTransactions s),
                                          users := (users s)(telegramId \<mapsto> mark_paid now (amount d) user)\<rparr>
                              in if \<not> delivered e (Chat telegramId)
                                 then (s', [LogError], (200, InternalAcknowledged))
                                 else if \<not> delivered e (Chat ADMIN_ID)
                                 then (s', [Send (Chat telegramId) (PaymentVerifiedNotice (amount d)),
                                            LogError], (200, InternalAcknowledged))
                                 else (s', [Send (Chat telegramId) (PaymentVerifiedNotice (amount d)),
                                            Send (Chat ADMIN_ID) (PaymentReceived (amount d) ref)],
                                       (200, Received)))))))"

definition post_verify ::
  "variant \<Rightarrow> int \<Rightarrow> env \<Rightarrow> int \<Rightarrow> jsstring option \<Rightarrow> state \<Rightarrow> state \<times> effect list \<times> response" where
  "post_verify v =
     (case v of
        IndexJs \<Rightarrow> post_verify_index
      | Part000 \<Rightarrow> post_verify_part_000
      | Part001 \<Rightarrow> post_verify_index)"

section \<open>The reviewer's decisions\<close>

text \<open>
  A callback query: who pressed the button, and the button's data. The reference minted
  for a payment is a prefix, the clock, a dash and the target's identifier.
\<close>

record query =
  query_from :: int
  query_data :: jsstring

definition new_tx_ref :: "jsstring \<Rightarrow> int \<Rightarrow> int \<Rightarrow> jsstring" where
  "new_tx_ref prefix now targetId = prefix @ js_String now @ js ''-'' @ js_String targetId"

text \<open>\<open>Number(query.data.split("_")[1])\<close>.\<close>

definition target_of :: "jsstring \<Rightarrow> jsnum" where
  "target_of d = js_Number (at_index (split d 0x5F) 1)"

text \<open>
  The checkout request and what follows it in \<open>index.js\<close>: no write to the state,
  whatever the gateway answers.
\<close>

definition request_checkout_index :: "env \<Rightarrow> int \<Rightarrow> nat \<Rightarrow> effect list" where
  "request_checkout_index e targetId fee =
     (case initializeCheckout e of
        CheckoutUrl link \<Rightarrow>
          [Edit MarkApproved, Answer TeacherApproved, Send (Chat targetId) (PaymentLink fee)]
      | CheckoutRefused \<Rightarrow>
          [LogError, Send (Chat targetId) PaymentLinkError, Answer PaymentLinkFailed]
      | CheckoutFailed \<Rightarrow>
          [LogError, Send (Chat targetId) PaymentLinkError, Answer PaymentLinkFailed])"

text \<open>
  \<open>bot.on("callback_query")\<close> of \<open>index.js\<close>. The branch for \<open>approve_\<close> has no
  test of the sender; the branches for \<open>reply_\<close> and \<open>reject_\<close> start with one.
  \<open>targetUser.name.split\<close> is a TypeError on a session without a name, raised after
  the writes.
\<close>

definition callback_query_index ::
  "int \<Rightarrow> env \<Rightarrow> int \<Rightarrow> query \<Rightarrow> state \<Rightarrow> state \<times> effect list \<times> outcome" where
  "callback_query_index ADMIN_ID e now q s =
     (if startsWith (query_data q) (js ''approve_'') then
        (case target_of (query_data q) of
           NaN \<Rightarrow> (s, [Answer UserNotFound], Returned)
         | Num targetId \<Rightarrow>
             (case users s targetId of
                None \<Rightarrow> (s, [Answer UserNotFound], Returned)
              | Some targetUser \<Rightarrow>
                  (let (fee, u1) = getFee now targetUser;
                       u2 = u1\<lparr>status := approved,
                               tx_ref := Some (new_tx_ref (js ''tx-'') now targetId)\<rparr>;
                       s' = s\<lparr>users := (users s)(targetId \<mapsto> u2)\<rparr>
                   in if name u2 = None then (s', [], Threw TypeError)
                      else (s', request_checkout_index e targetId fee, Returned))))
      else if startsWith (query_data q) (js ''reply_'') then
        (if query_from q \<noteq> ADMIN_ID then (s, [Answer Unauthorized], Returned)
         else (s\<lparr>adminReplyTarget := Some (target_of (query_data q))\<rparr>,
               [Answer ReplyModeActivated, Send (Chat ADMIN_ID) TypeYourReply], Returned))
      else if startsWith (query_data q) (js ''reject_'') then
        (if query_from q \<noteq> ADMIN_ID then (s, [Answer Unauthorized], Returned)
         else
           (case target_of (query_data q) of
              NaN \<Rightarrow> (s, [Answer UserNotFound], Returned)
            | Num targetId \<Rightarrow>
                (case users s targetId of
                   None \<Rightarrow> (s, [Answer UserNotFound], Returned)
                 | Some targetUser \<Rightarrow>
                     (s\<lparr>users := (users s)(targetId \<mapsto> targetUser\<lparr>status := reapply_required\<rparr>)\<rparr>,
                      [Edit MarkRejected, Answer TeacherRejected, Send (Chat targetId) NotApproved],
                      Returned))))
      else (s, [], Returned))"

text \<open>
  The first unnamed file: the same handler with the sender tested in the branch for
  \<open>approve_\<close> too (its comment: only admin can approve), the prefix \<open>OTS-\<close>, and the
  gateway's failures reported to the reviewer. The test of the fee cannot fail, the fee
  being 99 or 149. \<open>email.includes\<close> is a TypeError on a session without an email.
\<close>

definition request_checkout_part_000 :: "int \<Rightarrow> env \<Rightarrow> int \<Rightarrow> nat \<Rightarrow> effect list" where
  "request_checkout_part_000 ADMIN_ID e targetId fee =
     Edit MarkGenerating #
     (case initializeCheckout e of
        CheckoutUrl link \<Rightarrow>
          [Send (Chat targetId) (PaymentLink fee), Send (Chat ADMIN_ID) (LinkGenerated fee),
           Edit MarkApproved, Answer (LinkSent fee)]
      | CheckoutRefused \<Rightarrow>
          [Send (Chat ADMIN_ID) (GatewayError fee), Edit MarkGatewayError, Answer GatewayFailed]
      | CheckoutFailed \<Rightarrow>
          [LogError, Send (Chat ADMIN_ID) (GatewayError fee), Edit MarkGatewayError,
           Answer GatewayFailed])"

definition callback_query_part_000 ::
  "int \<Rightarrow> env \<Rightarrow> int \<Rightarrow> query \<Rightarrow> state \<Rightarrow> state \<times> effect list \<times> outcome" where
  "callback_query_part_000 ADMIN_ID e now q s =
     (if startsWith (query_data q) (js ''approve_'') then
        (if query_from q \<noteq> ADMIN_ID then (s, [Answer Unauthorized], Returned)
         else
           (case target_of (query_data q) of
              NaN \<Rightarrow> (s, [Answer UserNotFound], Returned)
            | Num targetId \<Rightarrow>
                (case users s targetId of
                   None \<Rightarrow> (s, [Answer UserNotFound], Returned)
                 | Some targetUser \<Rightarrow>
                     (let (fee, u1) = getFee now targetUser in
                      if fee = 0
                      then (s\<lparr>users := (users s)(targetId \<mapsto> u1)\<rparr>,
                            [Send (Chat ADMIN_ID) FeeFailedNotice, Answer FeeFailed], Returned)
                      else
                        (let u2 = u1\<lparr>status := approved,
                                      tx_ref := Some (new_tx_ref (js ''OTS-'') now targetId)\<rparr>;
                             s' = s\<lparr>users := (users s)(targetId \<mapsto> u2)\<rparr>
                         in if email u2 = None \<or> name u2 = None then (s', [], Threw TypeError)
                            else (s', request_checkout_part_000 ADMIN_ID e targetId fee,
                                  Returned))))))
      else if startsWith (query_data q) (js ''reply_'') then
        (if query_from q \<noteq> ADMIN_ID then (s, [Answer Unauthorized], Returned)
         else (s\<lparr>adminReplyTarget := Some (target_of (query_data q))\<rparr>,
               [Answer ReplyModeActivated, Send (Chat ADMIN_ID) TypeYourReply], Returned))
      else if startsWith (query_data q) (js ''reject_'') then
        (if query_from q \<noteq> ADMIN_ID then (s, [Answer Unauthorized], Returned)
         else
           (case target_of (query_data q) of
              NaN \<Rightarrow> (s, [Answer UserNotFound], Returned)
            | Num targetId \<Rightarrow>
                (case users s targetId of
                   None \<Rightarrow> (s, [Answer UserNotFound], Returned)
                 | Some targetUser \<Rightarrow>
                     (s\<lparr>users := (users s)(targetId \<mapsto> targetUser\<lparr>status := reapply_required\<rparr>)\<rparr>,
                      [Edit MarkRejected, Answer TeacherRejected, Send (Chat targetId) NotApproved],
                      Returned))))
      else (s, [], Returned))"

text \<open>
  The second unnamed file. Approval mints no reference: the approved actor asks for
  the payment link with the button \<open>pay_now\<close>, on the actor's own session. Every
  other button is the reviewer's, tested once for all three decisions.
\<close>

definition callback_query_part_001 ::
  "int \<Rightarrow> env \<Rightarrow> int \<Rightarrow> query \<Rightarrow> state \<Rightarrow> state \<times> effect list \<times> outcome" where
  "callback_query_part_001 ADMIN_ID e now q s =
     (if query_data q = js ''pay_now'' then
        (let userId = query_from q in
         case users s userId of
           None \<Rightarrow> (s, [Answer InvalidPaymentRequest], Returned)
         | Some user \<Rightarrow>
             if status user \<noteq> approved then (s, [Answer InvalidPaymentRequest], Returned)
             else
               (let (fee, u1) = getFee now user;
                    u2 = u1\<lparr>tx_ref := Some (new_tx_ref (js ''tx-'') now userId)\<rparr>;
                    s' = s\<lparr>users := (users s)(userId \<mapsto> u2)\<rparr>
                in if name u2 = None then (s', [], Threw TypeError)
                   else
                     (case initializeCheckout e of
                        CheckoutUrl link \<Rightarrow>
                          (s', [Send (Chat userId) (PaymentLink fee), Answer LinkReady], Returned)
                      | CheckoutRefused \<Rightarrow>
                          (s', [LogError, Send (Chat userId) PaymentLinkError, Answer PaymentFailed],
                           Returned)
                      | CheckoutFailed \<Rightarrow>
                          (s', [LogError, Send (Chat userId) PaymentLinkError, Answer PaymentFailed],
                           Returned))))
      else if query_from q = ADMIN_ID then
        (case target_of (query_data q) of
           NaN \<Rightarrow> (s, [Answer UserNotFound], Returned)
         | Num targetId \<Rightarrow>
             (case users s targetId of
                None \<Rightarrow> (s, [Answer UserNotFound], Returned)
              | Some targetUser \<Rightarrow>
                  if startsWith (query_data q) (js ''reply_'') then
                    (s\<lparr>adminReplyTarget := Some (Num targetId)\<rparr>,
                     [Answer ReplyModeActivated, Send (Chat ADMIN_ID) TypeYourReply], Returned)
                  else if startsWith (query_data q) (js ''approve_'') then
                    (let (fee, u1) = getFee now targetUser
                     in (s\<lparr>users := (users s)(targetId \<mapsto> u1\<lparr>status := approved\<rparr>)\<rparr>,
                         [Edit MarkApproved, Answer TeacherApproved,
                          Send (Chat targetId) (ApprovedPayNow fee)], Returned))
                  else if startsWith (query_data q) (js ''reject_'') then
                    (s\<lparr>users := (users s)(targetId \<mapsto> targetUser\<lparr>status := reapply_required\<rparr>)\<rparr>,
                     [Edit MarkRejected, Answer TeacherRejected, Send (Chat targetId) NotApproved],
                     Returned)
                  else (s, [], Returned)))
      else (s, [Answer Unauthorized], Returned))"

definition callback_query ::
  "variant \<Rightarrow> int \<Rightarrow> env \<Rightarrow> int \<Rightarrow> query \<Rightarrow> state \<Rightarrow> state \<times> effect list \<times> outcome" where
  "callback_query v =
     (case v of
        IndexJs \<Rightarrow> callback_query_index
      | Part000 \<Rightarrow> callback_query_part_000
      | Part001 \<Rightarrow> callback_query_part_001)"

section \<open>The registration steps\<close>

text \<open>
  An inbound message: its chat, its sender, its text when it has one, its contact when
  it shares one.
\<close>

record contact =
  contact_user_id :: "int option"
  phone_number :: jsstring

record message =
  msg_chat :: int
  msg_from :: int
  msg_text :: "jsstring option"
  msg_contact :: "contact option"

text \<open>
  The labels of the buttons. \<open>index.js\<close> and the first unnamed file put a pictograph
  and a space before the word, written here as UTF-16 code units; the second unnamed
  file has the bare words.
\<close>

definition REGISTER :: "variant \<Rightarrow> jsstring" where
  "REGISTER v = (if v = Part001 then js ''Register''
                 else [0xD83D, 0xDCDD, 0x20] @ js ''Register'')"

definition CANCEL :: "variant \<Rightarrow> jsstring" where
  "CANCEL v = (if v = Part001 then js ''Cancel'' else [0x274C, 0x20] @ js ''Cancel'')"

definition BACK :: "variant \<Rightarrow> jsstring" where
  "BACK v = (if v = Part001 then js ''Back'' else [0x2B05, 0xFE0F, 0x20] @ js ''Back'')"

definition MY_STATUS :: "variant \<Rightarrow> jsstring" where
  "MY_STATUS v = (if v = Part001 then js ''My Status''
                  else [0xD83D, 0xDCCA, 0x20] @ js ''My Status'')"

definition ABOUT :: "variant \<Rightarrow> jsstring" where
  "ABOUT v = (if v = Part001 then js ''About Platform''
              else [0x2139, 0xFE0F, 0x20] @ js ''About Platform'')"

text \<open>
  The end of the message handler: the status button (which calls \<open>getFee\<close> on an
  approved session) and the about button.
\<close>

definition status_or_about ::
  "variant \<Rightarrow> int \<Rightarrow> int \<Rightarrow> jsstring option \<Rightarrow> session \<Rightarrow> session \<times> effect list" where
  "status_or_about v now chatId txt user =
     (if txt = Some (MY_STATUS v) then
        (if status user = idle then (user, [Send (Chat chatId) (StatusReport idle None)])
         else if status user = approved then
           (let (fee, u1) = getFee now user
            in (u1, [Send (Chat chatId) (StatusReport approved (Some fee))]))
         else (user, [Send (Chat chatId) (StatusReport (status user) None)]))
      else if txt = Some (ABOUT v) then (user, [Send (Chat chatId) About])
      else (user, []))"

text \<open>
  The phone number of the phone step: the shared contact when it is the sender's own,
  else the text when there is one.
\<close>

definition phone_input :: "variant \<Rightarrow> message \<Rightarrow> jsstring option" where
  "phone_input v m =
     (let from_text =
            (case msg_text m of
               None \<Rightarrow> None
             | Some t \<Rightarrow> if t \<noteq> [] \<and> t \<noteq> BACK v \<and> t \<noteq> CANCEL v then Some t else None)
      in case msg_contact m of
           None \<Rightarrow> from_text
         | Some c \<Rightarrow>
             if contact_user_id c = Some (msg_chat m) then Some (phone_number c) else from_text)"

text \<open>
  The steps, in the order of the source. Each returns after its own write, except the
  subject step, which goes on to the status and about buttons; its review request and
  its notice to the actor are sent from a task of their own, after them.
\<close>

definition step_input ::
  "variant \<Rightarrow> int \<Rightarrow> message \<Rightarrow> session \<Rightarrow> session \<times> effect list \<times> outcome" where
  "step_input v now m user =
     (let chatId = msg_chat m; txt = msg_text m in
      if step user = Some step_name then
        (case txt of
           None \<Rightarrow> (user, [Send (Chat chatId) InvalidName], Returned)
         | Some t \<Rightarrow>
             if length t < 2 then (user, [Send (Chat chatId) InvalidName], Returned)
             else (user\<lparr>name := Some (trim t), step := Some step_phone\<rparr>,
                   [Send (Chat chatId) PromptPhone], Returned))
      else if step user = Some step_phone then
        (case phone_input v m of
           None \<Rightarrow> (user, [Send (Chat chatId) UseContactButton], Returned)
         | Some phoneNumber \<Rightarrow>
             if \<not> isValidPhone phoneNumber
             then (user, [Send (Chat chatId) InvalidPhone], Returned)
             else (user\<lparr>phone := Some phoneNumber, step := Some step_youtube\<rparr>,
                   [Send (Chat chatId) PromptYoutube], Returned))
      else if step user = Some step_youtube then
        (case txt of
           None \<Rightarrow> (user, [Send (Chat chatId) YoutubeRequired], Returned)
         | Some t \<Rightarrow>
             if t = [] \<or> toLowerCase t = js ''skip''
             then (user, [Send (Chat chatId) YoutubeRequired], Returned)
             else if \<not> isValidYouTubeUrl v (Some t)
             then (user, [Send (Chat chatId) InvalidYoutube], Returned)
             else (user\<lparr>youtube := Some (trim t), step := Some step_email\<rparr>,
                   [Send (Chat chatId) PromptEmail], Returned))
      else if step user = Some step_email then
        (case isValidEmail v txt of
           Inl err \<Rightarrow> (user, [], Threw err)
         | Inr ok \<Rightarrow>
             if \<not> ok then (user, [Send (Chat chatId) InvalidEmail], Returned)
             else
               (case txt of
                  None \<Rightarrow> (user, [], Threw TypeError)
                | Some t \<Rightarrow>
                    (user\<lparr>email := (if toLowerCase t = js ''skip''
                                     then Some (js ''Not provided'') else Some (trim t)),
                          step := Some step_subject\<rparr>,
                     [Send (Chat chatId) PromptSubject], Returned)))
      else if step user = Some step_subject then
        (case txt of
           None \<Rightarrow> (user, [Send (Chat chatId) InvalidSubject], Returned)
         | Some t \<Rightarrow>
             if length t < 2 then (user, [Send (Chat chatId) InvalidSubject], Returned)
             else
               (let u1 = user\<lparr>subject := Some (trim t), step := Some step_completed,
                               status := pending_review\<rparr>;
                    (u2, fx) = status_or_about v now chatId txt u1
                in (u2, fx @ [Send Channel (ReviewRequest chatId), Send (Chat chatId) Submitted],
                    Returned)))
      else
        (let (u2, fx) = status_or_about v now chatId txt user in (u2, fx, Returned)))"

text \<open>
  The control buttons, tested before the steps: register, cancel, back.
\<close>

definition on_user_message ::
  "variant \<Rightarrow> int \<Rightarrow> message \<Rightarrow> session \<Rightarrow> session \<times> effect list \<times> outcome" where
  "on_user_message v now m user =
     (let chatId = msg_chat m; txt = msg_text m in
      if txt = Some (REGISTER v) then
        (if status user = pending_review \<or> status user = approved \<or>
            status user = payment_verified
         then (user, [Send (Chat chatId) AlreadyInProgress], Returned)
         else (user\<lparr>step := Some step_name, status := collecting, createdAt := Some now\<rparr>,
               [Send (Chat chatId) PromptName], Returned))
      else if txt = Some (CANCEL v) then
        (user\<lparr>step := None, status := idle\<rparr>, [Send (Chat chatId) Cancelled], Returned)
      else if txt = Some (BACK v) then
        (if step user = Some step_phone
         then (user\<lparr>step := Some step_name\<rparr>, [Send (Chat chatId) ReturnedToPrevious], Returned)
         else if step user = Some step_youtube
         then (user\<lparr>step := Some step_phone\<rparr>, [Send (Chat chatId) ReturnedToPrevious], Returned)
         else if step user = Some step_email
         then (user\<lparr>step := Some step_youtube\<rparr>, [Send (Chat chatId) ReturnedToPrevious], Returned)
         else if step user = Some step_subject
         then (user\<lparr>step := Some step_email\<rparr>, [Send (Chat chatId) ReturnedToPrevious], Returned)
         else if step user = None then (user, [], Returned)
         else (user, [Send (Chat chatId) ReturnedToPrevious], Returned))
      else step_input v now m user)"

text \<open>
  \<open>adminReplyTarget\<close> as a condition: \<open>null\<close>, \<open>NaN\<close> and 0 are false.
\<close>

definition reply_target :: "jsnum option \<Rightarrow> int option" where
  "reply_target x =
     (case x of
        None \<Rightarrow> None
      | Some NaN \<Rightarrow> None
      | Some (Num k) \<Rightarrow> if k = 0 then None else Some k)"

text \<open>
  \<open>bot.on("message")\<close>: the rate limit, the reviewer's pending reply, the lookup of
  the sender's session, the stamp of its last activity, then the buttons and the steps
  on that session. In the reply mode the target is cleared after both sends; a send
  that fails ends the run before.
\<close>

definition on_message ::
  "variant \<Rightarrow> int \<Rightarrow> env \<Rightarrow> int \<Rightarrow> message \<Rightarrow> state \<Rightarrow> state \<times> effect list \<times> outcome" where
  "on_message v ADMIN_ID e now m s =
     (let chatId = msg_chat m;
          (allowed, rl) = checkRateLimit now chatId (rateLimit s);
          s1 = s\<lparr>rateLimit := rl\<rparr>
      in if \<not> allowed then (s1, [Send (Chat chatId) TooManyRequests], Returned)
         else
           (case (if msg_from m = ADMIN_ID then reply_target (adminReplyTarget s1) else None) of
              Some target \<Rightarrow>
                if \<not> delivered e (Chat target) then (s1, [], Threw TransportError)
                else if \<not> delivered e (Chat ADMIN_ID)
                then (s1, [Send (Chat target) (AdminMessage (msg_text m))], Threw TransportError)
                else (s1\<lparr>adminReplyTarget := None\<rparr>,
                      [Send (Chat target) (AdminMessage (msg_text m)),
                       Send (Chat ADMIN_ID) ReplyDelivered], Returned)
            | None \<Rightarrow>
                (case users s1 chatId of
                   None \<Rightarrow> (s1, [], Returned)
                 | Some user \<Rightarrow>
                     (let (u', fx, r) = on_user_message v now m (user\<lparr>lastActivity := Some now\<rparr>)
                      in (s1\<lparr>users := (users s1)(chatId \<mapsto> u')\<rparr>, fx, r)))))"

text \<open>
  \<open>bot.onText(/\/start/)\<close>: a fresh session replaces whatever the chat had.
\<close>

definition fresh_session :: "int \<Rightarrow> session" where
  "fresh_session now =
     \<lparr>step = None, status = idle, createdAt = Some now, lastActivity = Some now,
      name = None, phone = None, youtube = None, email = None, subject = None,
      penalty = None, tx_ref = None, paidAmount = None, commission = None,
      paymentDate = None\<rparr>"

definition on_start :: "int \<Rightarrow> message \<Rightarrow> state \<Rightarrow> state \<times> effect list \<times> outcome" where
  "on_start now m s =
     (let chatId = msg_chat m;
          (allowed, rl) = checkRateLimit now chatId (rateLimit s)
      in if \<not> allowed
         then (s\<lparr>rateLimit := rl\<rparr>, [Send (Chat chatId) TooManyRequests], Returned)
         else (s\<lparr>rateLimit := rl, users := (users s)(chatId \<mapsto> fresh_session now)\<rparr>,
               [Send (Chat chatId) Welcome], Returned))"

text \<open>
  The fixed sequence of the steps, as the specification names it: name, phone,
  youtube, email, subject, completed. It is used to state how far a message moves a
  session; the handler does not compute with it.
\<close>

fun step_index :: "step \<Rightarrow> nat" where
  "step_index step_name = 0"
| "step_index step_phone = 1"
| "step_index step_youtube = 2"
| "step_index step_email = 3"
| "step_index step_subject = 4"
| "step_index step_completed = 5"

section \<open>Example values\<close>

text \<open>
  A session that has been approved, a state that holds it under the identifier 42, and
  collaborators that answer every call well. The witnesses below run the handlers on
  them.
\<close>

definition example_session :: session where
  "example_session =
     \<lparr>step = Some step_completed, status = approved, createdAt = Some 1700000000000,
      lastActivity = Some 1700000000000, name = Some (js ''Jane Doe''),
      phone = Some (js ''0912345678''), youtube = Some (js ''https://youtube.com/@jane''),
      email = Some (js ''Not provided''), subject = Some (js ''Math''), penalty = Some False,
      tx_ref = Some (js ''tx-1700000100000-42''), paidAmount = None, commission = None,
      paymentDate = None\<rparr>"

definition example_state :: state where
  "example_state =
     \<lparr>users = [42 \<mapsto> example_session], processedTransactions = {},
      adminReplyTarget = None, rateLimit = Map.empty\<rparr>"

definition example_env :: env where
  "example_env =
     \<lparr>verifyTransaction = Reply (Some \<lparr>pay_status = js ''success'', amount = 99\<rparr>),
      initializeCheckout = CheckoutUrl (js ''https://checkout.chapa.co/pay''),
      delivered = (\<lambda>_. True)\<rparr>"

text \<open>The same collaborators when no message can be delivered.\<close>

definition example_env_unreached :: env where
  "example_env_unreached = example_env\<lparr>delivered := (\<lambda>_. False)\<rparr>"

text \<open>The example session once its payment of 99 has been confirmed.\<close>

definition example_paid :: session where
  "example_paid =
     example_session\<lparr>status := payment_verified, paidAmount := Some 99,
       commission := Some (DoubleProduct 99 TEACHER_PERCENT),
       paymentDate := Some 1700000200000\<rparr>"

section \<open>The payment webhook: acknowledgement and replay\<close>

lemma post_verify_replayed:
  "ref \<in> processedTransactions s \<Longrightarrow> ref \<noteq> [] \<Longrightarrow>
   post_verify v A e now (Some ref) s = (s, [], (200, AlreadyProcessed))"
  by (cases v) (simp_all add: post_verify_def post_verify_index_def post_verify_part_000_def)

lemma post_verify_changed:
  assumes "post_verify v A e now (Some ref) s = (s1, fx1, r1)" and "s1 \<noteq> s"
  shows "ref \<noteq> [] \<and> ref \<notin> processedTransactions s \<and>
     (\<exists>k u paid. owner_of ref = Num k \<and> users s k = Some u \<and>
        s1 = s\<lparr>processedTransactions := insert ref (processedTransactions s),
               users := (users s)(k \<mapsto> mark_paid now paid u)\<rparr> \<and>
        (delivered e (Chat k) \<longrightarrow> delivered e (Chat A) \<longrightarrow>
           fx1 = [Send (Chat k) (PaymentVerifiedNotice paid),
                  Send (Chat A) (PaymentReceived paid ref)]))"
  using assms
  by (cases v)
     (auto simp: post_verify_def post_verify_index_def post_verify_part_000_def Let_def
           split: if_splits option.splits verification.splits jsnum.splits)

text \<open>
  The set of processed references never holds the empty string: the handlers add a
  reference only after \<open>!tx_ref\<close> has failed.
\<close>

lemma post_verify_keeps_nonempty:
  assumes "post_verify v A e now txr s = (s1, fx1, r1)" and "[] \<notin> processedTransactions s"
  shows "[] \<notin> processedTransactions s1"
proof (cases "s1 = s")
  case True
  with assms(2) show ?thesis by simp
next
  case False
  have "txr \<noteq> None"
    using assms(1) False
    by (cases v; cases txr)
       (auto simp: post_verify_def post_verify_index_def post_verify_part_000_def)
  then obtain ref where txr: "txr = Some ref" by auto
  from post_verify_changed [OF assms(1) [unfolded txr] False] assms(2)
  show ?thesis by auto
qed

text \<open>
  C1. In \<open>index.js\<close> the webhook does not acknowledge every request with a 2xx
  status: a request without \<open>tx_ref\<close> is answered 400, a verified payment whose
  reference names no session 404, and an unreachable gateway 500. The state is left as
  it was in all three.
\<close>

theorem post_verify_index_refuses:
  "post_verify IndexJs 1 example_env 1700000200000 None example_state =
     (example_state, [], (400, MissingTxRef)) \<and>
   post_verify IndexJs 1 example_env 1700000200000 (Some (js ''tx-1700000100000-7'')) example_state =
     (example_state, [], (404, NoSuchUser)) \<and>
   post_verify IndexJs 1 (example_env\<lparr>verifyTransaction := Unreachable\<rparr>) 1700000200000
       (Some (js ''tx-1700000100000-42'')) example_state =
     (example_state, [LogError], (500, InternalServerError))"
  by (simp add: post_verify_def post_verify_index_def example_env_def example_state_def
      owner_of_def js_Number_def unsigned_literal_def decimal_value_def digit_value_def
      is_digit_def is_space_def trim_def js_def)

text \<open>
  The first unnamed file is the variant that does what C1 asks: whatever the request,
  the state and the collaborators' answers, the status of the response is 200.
\<close>

theorem post_verify_part_000_acknowledges:
  "fst (snd (snd (post_verify Part000 ADMIN_ID e now txr s))) = 200"
  by (auto simp: post_verify_def post_verify_part_000_def Let_def
           split: if_splits option.splits verification.splits jsnum.splits)

text \<open>
  C2, as the code has it. In a state whose set of processed references does not hold
  the empty string (the handlers never add it, see above), a confirmation whose
  reference is already in the set is acknowledged (200) without reprocessing: the
  state is the same and nothing is sent, in every variant. A first delivery of a
  reference that is not yet in the set, that the gateway verifies as paid and whose
  owner has a session records the reference and moves that session to
  \<open>payment_verified\<close> with the amount and the date, and only then notifies: the
  payer and the reviewer when both messages are delivered, the payer alone when the
  second fails, nobody when the first fails. Any later delivery of the reference, one
  run after the other, changes nothing and sends nothing. So the reference delivered
  twice makes exactly one status transition and at most one pair of notices, exactly
  one when the sends of the first delivery succeed.
\<close>

theorem confirmation_is_applied_once:
  assumes "[] \<notin> processedTransactions s"
  shows "(ref \<in> processedTransactions s \<longrightarrow>
            post_verify v ADMIN_ID e now (Some ref) s = (s, [], (200, AlreadyProcessed))) \<and>
         (ref \<noteq> [] \<and> ref \<notin> processedTransactions s \<and>
          verifyTransaction e = Reply (Some d) \<and> pay_status d = js ''success'' \<and>
          owner_of ref = Num k \<and> users s k = Some u \<longrightarrow>
            (\<exists>s1 fx1 r1.
               post_verify v ADMIN_ID e now (Some ref) s = (s1, fx1, r1) \<and>
               s1 = s\<lparr>processedTransactions := insert ref (processedTransactions s),
                      users := (users s)(k \<mapsto>
                        u\<lparr>status := payment_verified, paidAmount := Some (amount d),
                          commission := Some (DoubleProduct (amount d) TEACHER_PERCENT),
                          paymentDate := Some now\<rparr>)\<rparr> \<and>
               fx1 = (if \<not> delivered e (Chat k) then [LogError]
                      else if \<not> delivered e (Chat ADMIN_ID)
                      then [Send (Chat k) (PaymentVerifiedNotice (amount d)), LogError]
                      else [Send (Chat k) (PaymentVerifiedNotice (amount d)),
                            Send (Chat ADMIN_ID) (PaymentReceived (amount d) ref)]) \<and>
               (\<forall>e' now'. post_verify v ADMIN_ID e' now' (Some ref) s1 =
                             (s1, [], (200, AlreadyProcessed)))))"
proof (intro conjI impI)
  assume "ref \<in> processedTransactions s"
  with assms have "ref \<noteq> []" by auto
  with \<open>ref \<in> processedTransactions s\<close>
  show "post_verify v ADMIN_ID e now (Some ref) s = (s, [], (200, AlreadyProcessed))"
    by (rule post_verify_replayed)
next
  let ?s1 = "s\<lparr>processedTransactions := insert ref (processedTransactions s),
                users := (users s)(k \<mapsto>
                  u\<lparr>status := payment_verified, paidAmount := Some (amount d),
                    commission := Some (DoubleProduct (amount d) TEACHER_PERCENT),
                    paymentDate := Some now\<rparr>)\<rparr>"
  let ?fx1 = "if \<not> delivered e (Chat k) then [LogError]
              else if \<not> delivered e (Chat ADMIN_ID)
              then [Send (Chat k) (PaymentVerifiedNotice (amount d)), LogError]
              else [Send (Chat k) (PaymentVerifiedNotice (amount d)),
                    Send (Chat ADMIN_ID) (PaymentReceived (amount d) ref)]"
  assume first: "ref \<noteq> [] \<and> ref \<notin> processedTransactions s \<and>
      verifyTransaction e = Reply (Some d) \<and> pay_status d = js ''success'' \<and>
      owner_of ref = Num k \<and> users s k = Some u"
  then have run: "\<exists>r1. post_verify v ADMIN_ID e now (Some ref) s = (?s1, ?fx1, r1)"
    by (cases v)
       (simp_all add: post_verify_def post_verify_index_def post_verify_part_000_def
          mark_paid_def Let_def)
  have "ref \<in> processedTransactions ?s1" by simp
  with first have later: "\<forall>e' now'. post_verify v ADMIN_ID e' now' (Some ref) ?s1 =
      (?s1, [], (200, AlreadyProcessed))"
    by (simp add: post_verify_replayed)
  from run obtain r1 where "post_verify v ADMIN_ID e now (Some ref) s = (?s1, ?fx1, r1)"
    by blast
  with later show "\<exists>s1 fx1 r1.
      post_verify v ADMIN_ID e now (Some ref) s = (s1, fx1, r1) \<and>
      s1 = ?s1 \<and> fx1 = ?fx1 \<and>
      (\<forall>e' now'. post_verify v ADMIN_ID e' now' (Some ref) s1 =
                    (s1, [], (200, AlreadyProcessed)))"
    by blast
qed

theorem confirmation_is_applied_once_witness:
  "post_verify IndexJs 1 example_env 1700000300000 (Some (js ''tx-1700000100000-42''))
     (example_state\<lparr>processedTransactions := {js ''tx-1700000100000-42''},
        users := [42 \<mapsto> example_paid]\<rparr>) =
     (example_state\<lparr>processedTransactions := {js ''tx-1700000100000-42''},
        users := [42 \<mapsto> example_paid]\<rparr>, [], (200, AlreadyProcessed)) \<and>
   fst (post_verify IndexJs 1 example_env 1700000200000 (Some (js ''tx-1700000100000-42''))
     example_state) =
     example_state\<lparr>processedTransactions := {js ''tx-1700000100000-42''},
        users := [42 \<mapsto> example_paid]\<rparr> \<and>
   fst (snd (post_verify IndexJs 1 example_env 1700000200000
     (Some (js ''tx-1700000100000-42'')) example_state)) =
     [Send (Chat 42) (PaymentVerifiedNotice 99),
      Send (Chat 1) (PaymentReceived 99 (js ''tx-1700000100000-42''))]"
proof -
  let ?ref = "js ''tx-1700000100000-42''"
  let ?paid = "example_state\<lparr>processedTransactions := {?ref}, users := [42 \<mapsto> example_paid]\<rparr>"
  let ?d = "\<lparr>pay_status = js ''success'', amount = 99\<rparr>"
  have nonempty: "[] \<notin> processedTransactions ?paid"
    by (simp add: js_def)
  have again: "post_verify IndexJs 1 example_env 1700000300000 (Some ?ref) ?paid =
      (?paid, [], (200, AlreadyProcessed))"
    using confirmation_is_applied_once
      [OF nonempty, of ?ref IndexJs 1 example_env 1700000300000]
    by simp
  have clean: "[] \<notin> processedTransactions example_state"
    by (simp add: example_state_def)
  have first: "?ref \<noteq> [] \<and> ?ref \<notin> processedTransactions example_state \<and>
      verifyTransaction example_env = Reply (Some ?d) \<and> pay_status ?d = js ''success'' \<and>
      owner_of ?ref = Num 42 \<and> users example_state 42 = Some example_session"
    by (simp add: example_env_def example_state_def owner_of_def js_Number_def
        unsigned_literal_def decimal_value_def digit_value_def is_digit_def is_space_def
        trim_def js_def)
  from confirmation_is_applied_once
      [OF clean, of ?ref IndexJs 1 example_env 1700000200000 ?d 42 example_session] first
  obtain r1 where "post_verify IndexJs 1 example_env 1700000200000 (Some ?ref) example_state =
      (example_state\<lparr>processedTransactions := insert ?ref (processedTransactions example_state),
         users := (users example_state)(42 \<mapsto>
           example_session\<lparr>status := payment_verified, paidAmount := Some (amount ?d),
             commission := Some (DoubleProduct (amount ?d) TEACHER_PERCENT),
             paymentDate := Some 1700000200000\<rparr>)\<rparr>,
       (if \<not> delivered example_env (Chat 42) then [LogError]
        else if \<not> delivered example_env (Chat 1)
        then [Send (Chat 42) (PaymentVerifiedNotice (amount ?d)), LogError]
        else [Send (Chat 42) (PaymentVerifiedNotice (amount ?d)),
              Send (Chat 1) (PaymentReceived (amount ?d) ?ref)]), r1)"
    by blast
  then have "fst (post_verify IndexJs 1 example_env 1700000200000 (Some ?ref) example_state) = ?paid"
    and "fst (snd (post_verify IndexJs 1 example_env 1700000200000 (Some ?ref) example_state)) =
      [Send (Chat 42) (PaymentVerifiedNotice 99), Send (Chat 1) (PaymentReceived 99 ?ref)]"
    by (simp_all add: example_state_def example_env_def example_paid_def)
  with again show ?thesis by simp
qed

text \<open>
  C2 as it was stated promises exactly one pair of notices. The handler records the
  reference and writes the session before it sends: when the payer cannot be reached,
  the first delivery has made the transition and sent nothing (\<open>index.js\<close> answers
  500, the first unnamed file 200), and the replay is ignored, so two deliveries end
  with one transition and no notice at all.
\<close>

theorem confirmation_counterexample:
  "post_verify IndexJs 1 example_env_unreached 1700000200000
     (Some (js ''tx-1700000100000-42'')) example_state =
     (example_state\<lparr>processedTransactions := {js ''tx-1700000100000-42''},
        users := [42 \<mapsto> example_paid]\<rparr>, [LogError], (500, InternalServerError)) \<and>
   post_verify IndexJs 1 example_env 1700000300000 (Some (js ''tx-1700000100000-42''))
     (example_state\<lparr>processedTransactions := {js ''tx-1700000100000-42''},
        users := [42 \<mapsto> example_paid]\<rparr>) =
     (example_state\<lparr>processedTransactions := {js ''tx-1700000100000-42''},
        users := [42 \<mapsto> example_paid]\<rparr>, [], (200, AlreadyProcessed)) \<and>
   post_verify Part000 1 example_env_unreached 1700000200000
     (Some (js ''tx-1700000100000-42'')) example_state =
     (example_state\<lparr>processedTransactions := {js ''tx-1700000100000-42''},
        users := [42 \<mapsto> example_paid]\<rparr>, [LogError], (200, InternalAcknowledged)) \<and>
   post_verify Part000 1 example_env 1700000300000 (Some (js ''tx-1700000100000-42''))
     (example_state\<lparr>processedTransactions := {js ''tx-1700000100000-42''},
        users := [42 \<mapsto> example_paid]\<rparr>) =
     (example_state\<lparr>processedTransactions := {js ''tx-1700000100000-42''},
        users := [42 \<mapsto> example_paid]\<rparr>, [], (200, AlreadyProcessed))"
  by (simp add: post_verify_def post_verify_index_def post_verify_part_000_def mark_paid_def
      example_env_unreached_def example_env_def example_state_def example_paid_def
      owner_of_def js_Number_def unsigned_literal_def decimal_value_def digit_value_def
      is_digit_def is_space_def trim_def js_def)

section \<open>The fee policy\<close>

text \<open>
  The comparison of the elapsed hours with 24 is a comparison of the elapsed
  milliseconds with a day.
\<close>

lemma hours_since_over_a_day:
  "hours_since now created > 24 \<longleftrightarrow> now - created > 24 * 60 * 60 * 1000"
proof -
  have "hours_since now created > 24 \<longleftrightarrow> (of_int (now - created) :: rat) > 24 * 3600000"
    by (simp add: hours_since_def pos_less_divide_eq)
  also have "\<dots> \<longleftrightarrow> (of_int (now - created) :: rat) > of_int 86400000"
    by simp
  also have "\<dots> \<longleftrightarrow> now - created > 86400000"
    by (simp only: of_int_less_iff)
  finally show ?thesis by simp
qed

text \<open>
  C3. \<open>getFee\<close> at a fixed time \<open>now\<close>: the standard fee 99 and an untouched session
  when the session has no creation timestamp (\<open>createdAt\<close> missing, or 0, which the
  code's test \<open>!user.createdAt\<close> takes for missing); otherwise 149 with the penalty
  flag set when the status is \<open>reapply_required\<close> or more than 24 hours have passed
  since \<open>createdAt\<close>, and 99 with the flag cleared in every remaining case. A second
  call at the same time on the session the first call left returns the same fee and
  leaves the same session.
\<close>

theorem getFee_policy:
  "(createdAt u = None \<or> createdAt u = Some 0 \<longrightarrow> getFee now u = (99, u)) \<and>
   (\<forall>created. createdAt u = Some created \<and> created \<noteq> 0 \<longrightarrow>
      (status u = reapply_required \<or> hours_since now created > 24 \<longrightarrow>
         getFee now u = (149, u\<lparr>penalty := Some True\<rparr>)) \<and>
      (status u \<noteq> reapply_required \<and> \<not> hours_since now created > 24 \<longrightarrow>
         getFee now u = (99, u\<lparr>penalty := Some False\<rparr>))) \<and>
   getFee now (snd (getFee now u)) = getFee now u"
  by (auto simp: getFee_def PRICING_STANDARD_def PRICING_PENALTY_def split: option.splits)

theorem getFee_policy_witness:
  "getFee 1700000000000 (example_session\<lparr>createdAt := None\<rparr>) =
     (99, example_session\<lparr>createdAt := None\<rparr>) \<and>
   getFee 1700007200000 example_session = (99, example_session\<lparr>penalty := Some False\<rparr>) \<and>
   getFee 1700108000000 example_session = (149, example_session\<lparr>penalty := Some True\<rparr>) \<and>
   getFee 1700007200000 (example_session\<lparr>status := reapply_required\<rparr>) =
     (149, example_session\<lparr>status := reapply_required, penalty := Some True\<rparr>)"
proof -
  have a: "createdAt (example_session\<lparr>createdAt := None\<rparr>) = None" by simp
  have c: "createdAt example_session = Some 1700000000000 \<and> (1700000000000::int) \<noteq> 0"
    by (simp add: example_session_def)
  have c': "createdAt (example_session\<lparr>status := reapply_required\<rparr>) = Some 1700000000000
      \<and> (1700000000000::int) \<noteq> 0"
    by (simp add: example_session_def)
  have early: "status example_session \<noteq> reapply_required \<and>
      \<not> hours_since 1700007200000 1700000000000 > 24"
    by (simp add: example_session_def hours_since_def)
  have late: "hours_since 1700108000000 1700000000000 > 24"
    by (simp add: hours_since_def)
  have again: "status (example_session\<lparr>status := reapply_required\<rparr>) = reapply_required"
    by simp
  show ?thesis
    using getFee_policy [of "example_session\<lparr>createdAt := None\<rparr>" 1700000000000] a
      getFee_policy [of example_session 1700007200000] c early
      getFee_policy [of example_session 1700108000000] late
      getFee_policy [of "example_session\<lparr>status := reapply_required\<rparr>" 1700007200000] c' again
    by (simp add: example_session_def)
qed

section \<open>The sweep of idle sessions\<close>

lemma sweep_key_cases:
  "sweep_key now k us x = us x \<or>
   (x = k \<and> sweep_key now k us x = None \<and> (\<exists>user. us x = Some user \<and> expired now user))"
  by (auto simp: sweep_key_def split: option.splits)

lemma sweep_fold_cases:
  "fold (sweep_key now) keys us x = us x \<or>
   (x \<in> set keys \<and> fold (sweep_key now) keys us x = None \<and>
    (\<exists>user. us x = Some user \<and> expired now user))"
proof (induction keys arbitrary: us)
  case Nil
  show ?case by simp
next
  case (Cons k keys)
  from Cons [of "sweep_key now k us"] sweep_key_cases [of now k us x]
  show ?case by auto
qed

text \<open>When the list holds every key, each expired session is deleted.\<close>

lemma sweep_fold_deletes:
  "x \<in> set keys \<Longrightarrow> us x = Some user \<Longrightarrow> expired now user \<Longrightarrow>
   fold (sweep_key now) keys us x = None"
proof (induction keys arbitrary: us)
  case Nil
  then show ?case by simp
next
  case (Cons k keys)
  show ?case
  proof (cases "x = k")
    case True
    with Cons.prems have "sweep_key now k us x = None"
      by (simp add: sweep_key_def)
    with sweep_fold_cases [of now keys "sweep_key now k us" x] show ?thesis by auto
  next
    case False
    with Cons.prems have "x \<in> set keys" and "sweep_key now k us x = Some user"
      by (auto simp: sweep_key_def split: option.splits)
    with Cons.IH [of "sweep_key now k us"] Cons.prems(3) show ?thesis by simp
  qed
qed

text \<open>
  C7. One run of the sweep, at any time, in any state and over any list of keys, either
  deletes a stored session or leaves it exactly as it was. It deletes only a session
  whose last activity lies more than the timeout back and whose status is \<open>idle\<close> or
  \<open>collecting\<close>; a session in \<open>pending_review\<close>, \<open>approved\<close>,
  \<open>reapply_required\<close> or \<open>payment_verified\<close> is always kept.
\<close>

theorem sweep_spares_sessions_under_review:
  assumes "users s userId = Some user"
  shows "(users (cleanupInactiveSessions now keys s) userId = None \<or>
          users (cleanupInactiveSessions now keys s) userId = Some user) \<and>
         (users (cleanupInactiveSessions now keys s) userId = None \<longrightarrow>
            (\<exists>t. lastActivity user = Some t \<and> now - t > SESSION_TIMEOUT) \<and>
            (status user = idle \<or> status user = collecting)) \<and>
         (status user = pending_review \<or> status user = approved \<or>
          status user = reapply_required \<or> status user = payment_verified \<longrightarrow>
            users (cleanupInactiveSessions now keys s) userId = Some user)"
  using assms sweep_fold_cases [of now keys "users s" userId]
  by (auto simp: cleanupInactiveSessions_def expired_def split: option.splits)

theorem sweep_spares_sessions_under_review_witness:
  "users (cleanupInactiveSessions 1700009000000 [42] example_state) 42 = Some example_session \<and>
   users (cleanupInactiveSessions 1700009000000 [42]
      (example_state\<lparr>users := [42 \<mapsto> example_session\<lparr>status := collecting\<rparr>]\<rparr>)) 42 = None"
proof -
  have "users example_state 42 = Some example_session" by (simp add: example_state_def)
  moreover have "status example_session = approved" by (simp add: example_session_def)
  ultimately have one:
    "users (cleanupInactiveSessions 1700009000000 [42] example_state) 42 = Some example_session"
    using sweep_spares_sessions_under_review [of example_state 42 example_session 1700009000000 "[42]"]
    by simp
  have two: "users (cleanupInactiveSessions 1700009000000 [42]
      (example_state\<lparr>users := [42 \<mapsto> example_session\<lparr>status := collecting\<rparr>]\<rparr>)) 42 = None"
    by (simp add: cleanupInactiveSessions_def sweep_key_def expired_def example_session_def
        SESSION_TIMEOUT_def)
  from one two show ?thesis by simp
qed

section \<open>Regular expressions: the matcher decides the language\<close>

lemma nullable_lang: "nullable r \<longleftrightarrow> [] \<in> lang r"
  by (induction r) (auto intro: star.star_empty)

lemma star_step:
  assumes "x \<in> star A" and "x = c # w"
  shows "\<exists>u v. w = u @ v \<and> c # u \<in> A \<and> v \<in> star A"
  using assms
proof (induction arbitrary: w rule: star.induct)
  case star_empty
  then show ?case by simp
next
  case (star_more u v)
  show ?case
  proof (cases u)
    case Nil
    with star_more show ?thesis by simp
  next
    case (Cons a u')
    with star_more.prems have "a = c" and "w = u' @ v" by simp_all
    with star_more.hyps Cons show ?thesis by blast
  qed
qed

lemma star_cons:
  "c # w \<in> star A \<longleftrightarrow> (\<exists>u v. w = u @ v \<and> c # u \<in> A \<and> v \<in> star A)"
proof
  assume "c # w \<in> star A"
  then show "\<exists>u v. w = u @ v \<and> c # u \<in> A \<and> v \<in> star A"
    by (rule star_step) simp
next
  assume "\<exists>u v. w = u @ v \<and> c # u \<in> A \<and> v \<in> star A"
  then obtain u v where "w = u @ v" "c # u \<in> A" "v \<in> star A" by blast
  then show "c # w \<in> star A"
    using star.star_more [of "c # u" A v] by simp
qed

lemma lang_deriv: "w \<in> lang (deriv c r) \<longleftrightarrow> c # w \<in> lang r"
proof (induction r arbitrary: w)
  case Eps
  show ?case by simp
next
  case (Cls p)
  show ?case by auto
next
  case (Alt r q)
  then show ?case by simp
next
  case (Cat r q)
  then show ?case
    by (auto simp: nullable_lang Cons_eq_append_conv)
next
  case (Rep r)
  then show ?case by (auto simp: star_cons)
qed

lemma matches_lang: "matches r w \<longleftrightarrow> w \<in> lang r"
  by (induction w arbitrary: r) (simp_all add: nullable_lang lang_deriv)



lemma star_class: "w \<in> star {[c] | c. p c} \<longleftrightarrow> (\<forall>c\<in>set w. p c)"
proof (induction w)
  case Nil
  show ?case by (simp add: star.star_empty)
next
  case (Cons a w)
  have "a # w \<in> star {[c] | c. p c} \<longleftrightarrow> p a \<and> w \<in> star {[c] | c. p c}"
    by (auto simp: star_cons)
  with Cons show ?case by simp
qed

lemma lang_many1_class:
  "w \<in> lang (many1 (Cls p)) \<longleftrightarrow> w \<noteq> [] \<and> (\<forall>c\<in>set w. p c)"
proof (cases w)
  case Nil
  then show ?thesis by (simp add: many1_def)
next
  case (Cons a u)
  have "a # u \<in> lang (many1 (Cls p)) \<longleftrightarrow> p a \<and> u \<in> star {[c] | c. p c}"
  proof
    assume "a # u \<in> lang (many1 (Cls p))"
    then show "p a \<and> u \<in> star {[c] | c. p c}"
      by (auto simp: many1_def)
  next
    assume "p a \<and> u \<in> star {[c] | c. p c}"
    then have "[a] \<in> lang (Cls p)" and "u \<in> lang (Rep (Cls p))" by simp_all
    then have "[a] @ u \<in> lang (Cat (Cls p) (Rep (Cls p)))"
      unfolding lang.simps by blast
    then show "a # u \<in> lang (many1 (Cls p))" by (simp add: many1_def)
  qed
  with Cons show ?thesis by (simp add: star_class)
qed

lemma js_includes_unit: "js_includes s [c] \<longleftrightarrow> c \<in> set s"
  by (induction s) auto


lemma lang_unit: "w \<in> lang (chr c) \<longleftrightarrow> w = [c]"
  by auto

lemma emailRegex_shape:
  "matches emailRegex e \<longleftrightarrow>
     (\<exists>l m t. e = l @ [0x40] @ m @ [0x2E] @ t \<and> l \<noteq> [] \<and> m \<noteq> [] \<and> t \<noteq> [] \<and>
        (\<forall>x\<in>set (l @ m @ t). \<not> is_space x \<and> x \<noteq> 0x40))"
proof -
  let ?part = "\<lambda>w. w \<noteq> [] \<and> (\<forall>x\<in>set w. email_unit x)"
  have "matches emailRegex e \<longleftrightarrow>
      (\<exists>l r1. e = l @ r1 \<and> ?part l \<and>
        (\<exists>a r2. r1 = a @ r2 \<and> a = [0x40] \<and>
          (\<exists>m r3. r2 = m @ r3 \<and> ?part m \<and>
            (\<exists>d t. r3 = d @ t \<and> d = [0x2E] \<and> ?part t))))"
    unfolding matches_lang emailRegex_def lang.simps(4) mem_Collect_eq
      lang_many1_class lang_unit
    by (rule refl)
  also have "\<dots> \<longleftrightarrow>
      (\<exists>l m t. e = l @ [0x40] @ m @ [0x2E] @ t \<and> ?part l \<and> ?part m \<and> ?part t)"
  proof
    assume "\<exists>l r1. e = l @ r1 \<and> ?part l \<and>
        (\<exists>a r2. r1 = a @ r2 \<and> a = [0x40] \<and>
          (\<exists>m r3. r2 = m @ r3 \<and> ?part m \<and>
            (\<exists>d t. r3 = d @ t \<and> d = [0x2E] \<and> ?part t)))"
    then obtain l m t where "e = l @ [0x40] @ m @ [0x2E] @ t" "?part l" "?part m" "?part t"
      by auto
    then show "\<exists>l m t. e = l @ [0x40] @ m @ [0x2E] @ t \<and> ?part l \<and> ?part m \<and> ?part t"
      by blast
  next
    assume "\<exists>l m t. e = l @ [0x40] @ m @ [0x2E] @ t \<and> ?part l \<and> ?part m \<and> ?part t"
    then obtain l m t where e: "e = l @ [0x40] @ m @ [0x2E] @ t"
      and parts: "?part l" "?part m" "?part t"
      by blast
    have "\<exists>d t'. [0x2E] @ t = d @ t' \<and> d = [0x2E] \<and> ?part t'"
      using parts(3) by blast
    with parts(2) have "\<exists>m' r3. m @ [0x2E] @ t = m' @ r3 \<and> ?part m' \<and>
        (\<exists>d t'. r3 = d @ t' \<and> d = [0x2E] \<and> ?part t')"
      by blast
    then have "\<exists>a r2. [0x40] @ m @ [0x2E] @ t = a @ r2 \<and> a = [0x40] \<and>
        (\<exists>m' r3. r2 = m' @ r3 \<and> ?part m' \<and>
          (\<exists>d t'. r3 = d @ t' \<and> d = [0x2E] \<and> ?part t'))"
      by blast
    with e parts(1) show "\<exists>l r1. e = l @ r1 \<and> ?part l \<and>
        (\<exists>a r2. r1 = a @ r2 \<and> a = [0x40] \<and>
          (\<exists>m r3. r2 = m @ r3 \<and> ?part m \<and>
            (\<exists>d t. r3 = d @ t \<and> d = [0x2E] \<and> ?part t)))"
      by blast
  qed
  also have "\<dots> \<longleftrightarrow>
      (\<exists>l m t. e = l @ [0x40] @ m @ [0x2E] @ t \<and> l \<noteq> [] \<and> m \<noteq> [] \<and> t \<noteq> [] \<and>
        (\<forall>x\<in>set (l @ m @ t). \<not> is_space x \<and> x \<noteq> 0x40))"
    by (simp add: email_unit_def ball_Un conj_ac)
  finally show ?thesis .
qed


text \<open>
  Which strings \<open>toLowerCase\<close> turns into "skip": the sixteen ASCII casings, and those
  with the Kelvin sign for the k.
\<close>

lemma lower_unit_letter:
  assumes "0x61 \<le> x" and "x \<le> 0x7A"
  shows "lower_unit c = x \<longleftrightarrow> c = x \<or> c = x - 0x20 \<or> (x = 0x6B \<and> c = 0x212A)"
proof -
  have range: "0x41 \<le> x - 0x20 \<and> x - 0x20 \<le> 0x5A" and big: "\<not> (0x41 \<le> x \<and> x \<le> 0x5A)"
    and notk: "x \<noteq> 0x212A"
    using assms by (unat_arith, unat_arith, unat_arith)
  show ?thesis
  proof (cases "0x41 \<le> c \<and> c \<le> 0x5A")
    case True
    then have "c \<noteq> x" "c \<noteq> 0x212A" using assms by (unat_arith, unat_arith)
    moreover have "c + 0x20 = x \<longleftrightarrow> c = x - 0x20" by auto
    ultimately show ?thesis using True by (simp add: lower_unit_def)
  next
    case False
    then have "c \<noteq> x - 0x20" using range by auto
    then show ?thesis using False notk big by (auto simp: lower_unit_def)
  qed
qed

lemma toLowerCase_skip:
  "toLowerCase e = js ''skip'' \<longleftrightarrow>
     (\<exists>a b c d. e = [a, b, c, d] \<and> (a = 0x73 \<or> a = 0x53) \<and>
        (b = 0x6B \<or> b = 0x4B \<or> b = 0x212A) \<and> (c = 0x69 \<or> c = 0x49) \<and>
        (d = 0x70 \<or> d = 0x50))"
proof -
  have s: "\<And>c. lower_unit c = 0x73 \<longleftrightarrow> c = 0x73 \<or> c = 0x53"
    using lower_unit_letter [of "0x73"] by simp
  have k: "\<And>c. lower_unit c = 0x6B \<longleftrightarrow> c = 0x6B \<or> c = 0x4B \<or> c = 0x212A"
    using lower_unit_letter [of "0x6B"] by simp
  have i: "\<And>c. lower_unit c = 0x69 \<longleftrightarrow> c = 0x69 \<or> c = 0x49"
    using lower_unit_letter [of "0x69"] by simp
  have p: "\<And>c. lower_unit c = 0x70 \<longleftrightarrow> c = 0x70 \<or> c = 0x50"
    using lower_unit_letter [of "0x70"] by simp
  have "toLowerCase e = js ''skip'' \<longleftrightarrow>
      (\<exists>a b c d. e = [a, b, c, d] \<and> lower_unit a = 0x73 \<and> lower_unit b = 0x6B \<and>
         lower_unit c = 0x69 \<and> lower_unit d = 0x70)"
    by (auto simp: toLowerCase_def js_def map_eq_Cons_conv)
  then show ?thesis by (simp only: s k i p)
qed



section \<open>The email validator\<close>

text \<open>
  C8. In \<open>index.js\<close> and in the first unnamed file the validator accepts strings
  that are not of the shape \<open><non-space>@<non-space>.<non-space>\<close>: \<open>a b@c.d\<close>,
  which holds a space, and \<open>.@\<close>, which has no dot after the @ and no part that is
  not empty. Both hold an @ and a dot, which is all these two files ask for. The second
  unnamed file, which tests the regular expression, rejects both.
\<close>

theorem isValidEmail_index_accepts_white_space:
  "isValidEmail IndexJs (Some (js ''a b@c.d'')) = Inr True \<and>
   isValidEmail IndexJs (Some (js ''.@'')) = Inr True \<and>
   isValidEmail Part000 (Some (js ''a b@c.d'')) = Inr True \<and>
   isValidEmail Part000 (Some (js ''.@'')) = Inr True \<and>
   is_space (js ''a b@c.d'' ! 1) \<and>
   toLowerCase (js ''a b@c.d'') \<noteq> js ''skip'' \<and> toLowerCase (js ''.@'') \<noteq> js ''skip'' \<and>
   isValidEmail Part001 (Some (js ''a b@c.d'')) = Inr False \<and>
   isValidEmail Part001 (Some (js ''.@'')) = Inr False"
  by (simp add: isValidEmail_def toLowerCase_def lower_unit_def js_def is_space_def
      emailRegex_def many1_def email_unit_def)

text \<open>
  The validator of the second unnamed file. It accepts "skip" in every casing (the
  strings that \<open>toLowerCase\<close> turns into "skip", which every variant accepts); any
  other string it accepts exactly when it is \<open>l@m.t\<close> with three parts that are not
  empty and hold neither white space nor @. In every variant the validator answers
  \<open>true\<close> or \<open>false\<close> on every string.
\<close>

theorem isValidEmail_part_001_shape:
  "(isValidEmail Part001 (Some e) = Inr True \<longleftrightarrow>
      toLowerCase e = js ''skip'' \<or>
      (\<exists>l m t. e = l @ [0x40] @ m @ [0x2E] @ t \<and> l \<noteq> [] \<and> m \<noteq> [] \<and> t \<noteq> [] \<and>
         (\<forall>x\<in>set (l @ m @ t). \<not> is_space x \<and> x \<noteq> 0x40))) \<and>
   (toLowerCase e = js ''skip'' \<longrightarrow> isValidEmail v (Some e) = Inr True) \<and>
   (isValidEmail v (Some e) = Inr True \<or> isValidEmail v (Some e) = Inr False) \<and>
   (toLowerCase e = js ''skip'' \<longleftrightarrow>
      (\<exists>a b c d. e = [a, b, c, d] \<and> (a = 0x73 \<or> a = 0x53) \<and>
         (b = 0x6B \<or> b = 0x4B \<or> b = 0x212A) \<and> (c = 0x69 \<or> c = 0x49) \<and>
         (d = 0x70 \<or> d = 0x50)))"
proof (intro conjI)
  show "isValidEmail Part001 (Some e) = Inr True \<longleftrightarrow>
      toLowerCase e = js ''skip'' \<or>
      (\<exists>l m t. e = l @ [0x40] @ m @ [0x2E] @ t \<and> l \<noteq> [] \<and> m \<noteq> [] \<and> t \<noteq> [] \<and>
         (\<forall>x\<in>set (l @ m @ t). \<not> is_space x \<and> x \<noteq> 0x40))"
    unfolding emailRegex_shape [symmetric]
    by (simp add: isValidEmail_def)
  show "toLowerCase e = js ''skip'' \<longrightarrow> isValidEmail v (Some e) = Inr True"
    by (simp add: isValidEmail_def)
  show "isValidEmail v (Some e) = Inr True \<or> isValidEmail v (Some e) = Inr False"
    by (auto simp: isValidEmail_def)
  show "toLowerCase e = js ''skip'' \<longleftrightarrow>
      (\<exists>a b c d. e = [a, b, c, d] \<and> (a = 0x73 \<or> a = 0x53) \<and>
         (b = 0x6B \<or> b = 0x4B \<or> b = 0x212A) \<and> (c = 0x69 \<or> c = 0x49) \<and>
         (d = 0x70 \<or> d = 0x50))"
    by (rule toLowerCase_skip)
qed

theorem isValidEmail_part_001_shape_witness:
  "isValidEmail Part001 (Some (js ''SKIP'')) = Inr True \<and>
   isValidEmail IndexJs (Some (js ''Skip'')) = Inr True \<and>
   isValidEmail Part001 (Some (js ''a@b.c'')) = Inr True \<and>
   isValidEmail Part001 (Some (js ''notanemail'')) = Inr False \<and>
   isValidEmail Part001 (Some (js ''a@b@c.d'')) = Inr False"
proof -
  have skip: "toLowerCase (js ''SKIP'') = js ''skip''" "toLowerCase (js ''Skip'') = js ''skip''"
    by (simp_all add: toLowerCase_def lower_unit_def js_def)
  have shape: "\<exists>l m t. js ''a@b.c'' = l @ [0x40] @ m @ [0x2E] @ t \<and> l \<noteq> [] \<and> m \<noteq> [] \<and>
      t \<noteq> [] \<and> (\<forall>x\<in>set (l @ m @ t). \<not> is_space x \<and> x \<noteq> 0x40)"
    by (intro exI [of _ "js ''a''"] exI [of _ "js ''b''"] exI [of _ "js ''c''"])
       (simp add: js_def is_space_def)
  have none: "toLowerCase (js ''notanemail'') \<noteq> js ''skip''"
    "\<not> (\<exists>l m t. js ''notanemail'' = l @ [0x40] @ m @ [0x2E] @ t \<and> l \<noteq> [] \<and> m \<noteq> [] \<and>
      t \<noteq> [] \<and> (\<forall>x\<in>set (l @ m @ t). \<not> is_space x \<and> x \<noteq> 0x40))"
  proof -
    show "toLowerCase (js ''notanemail'') \<noteq> js ''skip''"
      by (simp add: toLowerCase_def js_def)
    have "0x40 \<notin> set (js ''notanemail'')"
      by (simp add: js_def)
    then show "\<not> (\<exists>l m t. js ''notanemail'' = l @ [0x40] @ m @ [0x2E] @ t \<and> l \<noteq> [] \<and>
        m \<noteq> [] \<and> t \<noteq> [] \<and> (\<forall>x\<in>set (l @ m @ t). \<not> is_space x \<and> x \<noteq> 0x40))"
      by (metis in_set_conv_decomp append_Cons append_Nil)
  qed
  have twice: "isValidEmail Part001 (Some (js ''a@b@c.d'')) = Inr False"
    using isValidEmail_part_001_shape [of "js ''a@b@c.d''" Part001]
    by (simp add: isValidEmail_def toLowerCase_def lower_unit_def js_def is_space_def
        emailRegex_def many1_def email_unit_def)
  have "isValidEmail Part001 (Some (js ''SKIP'')) = Inr True"
    using isValidEmail_part_001_shape [of "js ''SKIP''" Part001] skip(1) by simp
  moreover have "isValidEmail IndexJs (Some (js ''Skip'')) = Inr True"
    using isValidEmail_part_001_shape [of "js ''Skip''" IndexJs] skip(2) by simp
  moreover have "isValidEmail Part001 (Some (js ''a@b.c'')) = Inr True"
    using isValidEmail_part_001_shape [of "js ''a@b.c''" Part001] shape by simp
  moreover have "isValidEmail Part001 (Some (js ''notanemail'')) = Inr False"
  proof -
    from isValidEmail_part_001_shape [of "js ''notanemail''" Part001] none
    have "isValidEmail Part001 (Some (js ''notanemail'')) \<noteq> Inr True"
      and "isValidEmail Part001 (Some (js ''notanemail'')) = Inr True \<or>
           isValidEmail Part001 (Some (js ''notanemail'')) = Inr False"
      by blast+
    then show ?thesis by blast
  qed
  ultimately show ?thesis using twice by simp
qed

section \<open>Who may decide\<close>

text \<open>
  C4. In \<open>index.js\<close> a caller who is not the reviewer can approve: the query below
  comes from the identifier 7, the reviewer is 1, and the session of actor 42 goes from
  \<open>pending_review\<close> to \<open>approved\<close> with a fresh reference, and the payment link is
  sent. Nothing in the branch for \<open>approve_\<close> reads the sender.
\<close>

theorem approve_in_index_accepts_a_stranger:
  "callback_query IndexJs 1 example_env 1700003600000
     \<lparr>query_from = 7, query_data = js ''approve_42''\<rparr>
     (example_state\<lparr>users := [42 \<mapsto> example_session\<lparr>status := pending_review, tx_ref := None\<rparr>]\<rparr>) =
   (example_state\<lparr>users := [42 \<mapsto> example_session\<lparr>status := approved,
       tx_ref := Some (js ''tx-1700003600000-42'')\<rparr>]\<rparr>,
    [Edit MarkApproved, Answer TeacherApproved, Send (Chat 42) (PaymentLink 99)], Returned)"
  by (simp add: callback_query_def callback_query_index_def target_of_def js_Number_def
      unsigned_literal_def decimal_value_def digit_value_def is_digit_def is_space_def trim_def
      getFee_def hours_since_def new_tx_ref_def js_String_def digits.simps digit_unit_def
      request_checkout_index_def example_env_def example_state_def example_session_def
      PRICING_STANDARD_def PRICING_PENALTY_def js_def)


lemma pay_now_is_no_decision:
  "\<not> startsWith (js ''pay_now'') (js ''approve_'')"
  "\<not> startsWith (js ''pay_now'') (js ''reply_'')"
  "\<not> startsWith (js ''pay_now'') (js ''reject_'')"
  by (simp_all add: js_def)


text \<open>
  Everywhere else the claim holds. A query from anyone but the reviewer is answered
  "Unauthorized" and leaves the state as it was: for reply and reject in all three
  variants, and for approve in the two unnamed files.
\<close>

lemma decisions_differ:
  "startsWith d (js ''reply_'') \<or> startsWith d (js ''reject_'') \<Longrightarrow>
   \<not> startsWith d (js ''approve_'')"
  by (cases d) (auto simp: js_def)

theorem strangers_are_refused:
  assumes "query_from q \<noteq> ADMIN_ID"
    and "startsWith (query_data q) (js ''approve_'') \<and> v \<noteq> IndexJs \<or>
         startsWith (query_data q) (js ''reply_'') \<or>
         startsWith (query_data q) (js ''reject_'')"
  shows "callback_query v ADMIN_ID e now q s = (s, [Answer Unauthorized], Returned)"
proof -
  have "query_data q \<noteq> js ''pay_now''"
    using assms(2) pay_now_is_no_decision by auto
  with assms decisions_differ [of "query_data q"] show ?thesis
    by (cases v)
       (auto simp: callback_query_def callback_query_index_def callback_query_part_000_def
          callback_query_part_001_def)
qed

theorem strangers_are_refused_witness:
  "callback_query IndexJs 1 example_env 1700003600000
     \<lparr>query_from = 7, query_data = js ''reject_42''\<rparr> example_state =
     (example_state, [Answer Unauthorized], Returned) \<and>
   callback_query Part000 1 example_env 1700003600000
     \<lparr>query_from = 7, query_data = js ''approve_42''\<rparr> example_state =
     (example_state, [Answer Unauthorized], Returned) \<and>
   callback_query Part001 1 example_env 1700003600000
     \<lparr>query_from = 7, query_data = js ''approve_42''\<rparr> example_state =
     (example_state, [Answer Unauthorized], Returned)"
proof -
  have stranger: "query_from \<lparr>query_from = 7, query_data = d\<rparr> \<noteq> (1::int)" for d
    by simp
  have rej: "startsWith (js ''reject_42'') (js ''reject_'')"
    by (simp add: js_def)
  have app: "startsWith (js ''approve_42'') (js ''approve_'')"
    by (simp add: js_def)
  show ?thesis
    using strangers_are_refused [of "\<lparr>query_from = 7, query_data = js ''reject_42''\<rparr>" 1 IndexJs
        example_env 1700003600000 example_state]
      strangers_are_refused [of "\<lparr>query_from = 7, query_data = js ''approve_42''\<rparr>" 1 Part000
        example_env 1700003600000 example_state]
      strangers_are_refused [of "\<lparr>query_from = 7, query_data = js ''approve_42''\<rparr>" 1 Part001
        example_env 1700003600000 example_state]
      rej app
    by simp
qed

section \<open>Decimal numerals\<close>

lemma digit_unit_unat: "d < 10 \<Longrightarrow> unat (digit_unit d) = 48 + d"
  unfolding digit_unit_def by (subst unat_of_nat) simp

lemma is_digit_unat: "is_digit c \<longleftrightarrow> 48 \<le> unat c \<and> unat c \<le> 57"
  by (simp add: is_digit_def word_le_nat_alt)

lemma digit_unit_is_digit: "d < 10 \<Longrightarrow> is_digit (digit_unit d)"
  by (simp add: is_digit_unat digit_unit_unat)

lemma digit_value_unit: "d < 10 \<Longrightarrow> digit_value (digit_unit d) = d"
  by (simp add: digit_value_def digit_unit_unat)

lemma decimal_value_snoc:
  "decimal_value (ds @ [c]) = 10 * decimal_value ds + digit_value c"
  by (simp add: decimal_value_def)

lemma digits_nonempty: "digits n \<noteq> []"
  by (subst digits.simps) simp

lemma digits_are_digits: "list_all is_digit (digits n)"
proof (induction n rule: digits.induct)
  case (1 n)
  show ?case
  proof (cases "n < 10")
    case True
    then show ?thesis by (subst digits.simps) (simp add: digit_unit_is_digit)
  next
    case False
    with 1 show ?thesis by (subst digits.simps) (simp add: digit_unit_is_digit)
  qed
qed

lemma decimal_value_digits: "decimal_value (digits n) = n"
proof (induction n rule: digits.induct)
  case (1 n)
  show ?case
  proof (cases "n < 10")
    case True
    then show ?thesis
      by (subst digits.simps) (simp add: decimal_value_def digit_value_unit)
  next
    case False
    with 1 have "decimal_value (digits (n div 10)) = n div 10" by simp
    with False show ?thesis
      by (subst digits.simps) (simp add: decimal_value_snoc digit_value_unit)
  qed
qed

lemma is_digit_not_space: "is_digit c \<Longrightarrow> \<not> is_space c"
  unfolding is_digit_def is_space_def by unat_arith

lemma is_digit_not_sign: "is_digit c \<Longrightarrow> c \<noteq> 0x2D \<and> c \<noteq> 0x2B \<and> c \<noteq> 0x5F"
  unfolding is_digit_def by unat_arith


text \<open>Splitting at a separator, and the last piece.\<close>

lemma split_nonempty: "split s sep \<noteq> []"
  by (induction s) (auto split: list.splits)

lemma split_plain: "sep \<notin> set s \<Longrightarrow> split s sep = [s]"
  by (induction s) auto

lemma split_append: "split (a @ sep # d) sep = split a sep @ split d sep"
proof (induction a)
  case Nil
  show ?case by simp
next
  case (Cons x a)
  obtain w ws where "split a sep = w # ws"
    using split_nonempty [of a sep] by (cases "split a sep") auto
  with Cons show ?case by simp
qed

lemma pop_append: "ys \<noteq> [] \<Longrightarrow> pop (xs @ ys) = pop ys"
proof (induction xs)
  case Nil
  show ?case by simp
next
  case (Cons x xs)
  then obtain z zs where "xs @ ys = z # zs" by (cases "xs @ ys") auto
  with Cons show ?case by simp
qed

lemma pop_split_suffix:
  "sep \<notin> set d \<Longrightarrow> pop (split (a @ sep # d) sep) = Some d"
  by (simp add: split_append split_plain pop_append)

lemma second_of_split:
  "sep \<notin> set a \<Longrightarrow> sep \<notin> set d \<Longrightarrow> at_index (split (a @ sep # d) sep) 1 = Some d"
  by (simp add: split_append split_plain)

text \<open>\<open>Number\<close> reads back what \<open>String\<close> wrote.\<close>

lemma dropWhile_clean: "xs \<noteq> [] \<Longrightarrow> \<not> P (hd xs) \<Longrightarrow> dropWhile P xs = xs"
  by (cases xs) simp_all

lemma trim_clean:
  assumes "s \<noteq> []" and "\<not> is_space (hd s)" and "\<not> is_space (last s)"
  shows "trim s = s"
proof -
  have "dropWhile is_space s = s"
    using assms by (simp add: dropWhile_clean)
  moreover have "dropWhile is_space (rev s) = rev s"
    using assms by (intro dropWhile_clean) (simp_all add: hd_rev)
  ultimately show ?thesis by (simp add: trim_def)
qed

lemma digits_hd_last: "is_digit (hd (digits n)) \<and> is_digit (last (digits n))"
  using digits_are_digits [of n] digits_nonempty [of n]
  by (simp add: list_all_iff)

lemma unsigned_literal_digits: "n < 2 ^ 53 \<Longrightarrow> unsigned_literal (digits n) = Some n"
  by (simp add: unsigned_literal_def digits_nonempty digits_are_digits decimal_value_digits
     )

lemma js_Number_js_String:
  assumes "\<bar>t\<bar> < 2 ^ 53"
  shows "js_Number (Some (js_String t)) = Num t"
proof (cases "t < 0")
  case True
  let ?d = "digits (nat (- t))"
  have dash: "\<not> is_space 0x2D" by (simp add: is_space_def)
  have "\<not> is_space (last ?d)"
    using digits_hd_last [of "nat (- t)"] by (simp add: is_digit_not_space)
  then have "trim (0x2D # ?d) = 0x2D # ?d"
    using dash digits_nonempty [of "nat (- t)"]
    by (intro trim_clean) (simp_all)
  moreover have "nat (- t) < 2 ^ 53" using assms True by (simp add: nat_less_iff)
  ultimately show ?thesis
    using True by (simp add: js_Number_def js_String_def unsigned_literal_digits)
next
  case False
  let ?d = "digits (nat t)"
  have clean: "trim ?d = ?d"
    using digits_hd_last [of "nat t"] digits_nonempty [of "nat t"]
    by (intro trim_clean) (simp_all add: is_digit_not_space)
  obtain c r where d: "?d = c # r"
    using digits_nonempty [of "nat t"] by (cases ?d) auto
  with digits_hd_last [of "nat t"] have "c \<noteq> 0x2D \<and> c \<noteq> 0x2B"
    using is_digit_not_sign [of c] by simp
  moreover have "nat t < 2 ^ 53" using assms False by (simp add: nat_less_iff)
  then have "unsigned_literal (c # r) = Some (nat t)"
    using unsigned_literal_digits [of "nat t"] d by simp
  ultimately show ?thesis
    using False clean d by (simp add: js_Number_def js_String_def)
qed


text \<open>Two references are the same only for the same clock reading and target.\<close>

lemma digits_inj: "digits a = digits b \<Longrightarrow> a = b"
  by (metis decimal_value_digits)

lemma digits_free_of:
  "\<not> is_digit c \<Longrightarrow> c \<notin> set (digits n)"
  using digits_are_digits [of n] by (auto simp: list_all_iff)

lemma js_String_free_of:
  "\<not> is_digit c \<Longrightarrow> c \<noteq> 0x2D \<Longrightarrow> c \<notin> set (js_String n)"
  by (simp add: js_String_def digits_free_of)

lemma cut_at_separator:
  "sep \<notin> set a \<Longrightarrow> sep \<notin> set b \<Longrightarrow> a @ sep # x = b @ sep # y \<Longrightarrow> a = b \<and> x = y"
proof (induction a arbitrary: b)
  case Nil
  then show ?case by (cases b) auto
next
  case (Cons c a)
  then show ?case by (cases b) auto
qed

lemma dash_is_no_digit: "\<not> is_digit 0x2D"
  by (simp add: is_digit_def)

lemma js_String_cut:
  assumes "js_String n1 @ 0x2D # x = js_String n2 @ 0x2D # y"
  shows "n1 = n2 \<and> x = y"
proof -
  have free: "0x2D \<notin> set (digits k)" for k
    by (rule digits_free_of) (rule dash_is_no_digit)
  have starts: "hd (digits k @ z) \<noteq> 0x2D" for k z
    using digits_hd_last [of k] digits_nonempty [of k] dash_is_no_digit
    by (cases "digits k") auto
  consider (pp) "0 \<le> n1" "0 \<le> n2" | (nn) "n1 < 0" "n2 < 0"
    | (np) "n1 < 0" "0 \<le> n2" | (pn) "0 \<le> n1" "n2 < 0"
    by linarith
  then show ?thesis
  proof cases
    case pp
    with assms have "digits (nat n1) @ 0x2D # x = digits (nat n2) @ 0x2D # y"
      by (simp add: js_String_def)
    from cut_at_separator [OF free free this] pp show ?thesis
      by (auto dest: digits_inj)
  next
    case nn
    with assms have "digits (nat (- n1)) @ 0x2D # x = digits (nat (- n2)) @ 0x2D # y"
      by (simp add: js_String_def)
    from cut_at_separator [OF free free this] nn show ?thesis
      by (auto dest: digits_inj)
  next
    case np
    with assms have "0x2D # digits (nat (- n1)) @ 0x2D # x = digits (nat n2) @ 0x2D # y"
      by (simp add: js_String_def)
    then have "hd (digits (nat n2) @ 0x2D # y) = 0x2D"
      by (metis list.sel(1))
    with starts show ?thesis by blast
  next
    case pn
    with assms have "digits (nat n1) @ 0x2D # x = 0x2D # digits (nat (- n2)) @ 0x2D # y"
      by (simp add: js_String_def)
    then have "hd (digits (nat n1) @ 0x2D # x) = 0x2D"
      by (metis list.sel(1))
    with starts show ?thesis by blast
  qed
qed

lemma js_String_inj: "js_String a = js_String b \<Longrightarrow> a = b"
  using js_String_cut [of a "[]" b "[]"] by simp

lemma new_tx_ref_inj:
  "new_tx_ref p now t = new_tx_ref p now' t' \<longleftrightarrow> now = now' \<and> t = t'"
proof
  assume "new_tx_ref p now t = new_tx_ref p now' t'"
  then have "js_String now @ 0x2D # js_String t = js_String now' @ 0x2D # js_String t'"
    by (simp add: new_tx_ref_def js_def)
  from js_String_cut [OF this] show "now = now' \<and> t = t'"
    by (auto dest: js_String_inj)
qed simp


lemma target_of_approve:
  assumes "\<bar>t\<bar> < 2 ^ 53"
  shows "target_of (js ''approve_'' @ js_String t) = Num t"
proof -
  have glue: "js ''approve_'' @ js_String t = js ''approve'' @ 0x5F # js_String t"
    by (simp add: js_def)
  have left: "0x5F \<notin> set (js ''approve'')"
    by (simp add: js_def)
  have right: "0x5F \<notin> set (js_String t)"
    by (rule js_String_free_of) (simp_all add: is_digit_def)
  have "at_index (split (js ''approve_'' @ js_String t) 0x5F) 1 = Some (js_String t)"
    unfolding glue by (rule second_of_split [OF left right])
  then show ?thesis
    using assms by (simp add: target_of_def js_Number_js_String)
qed

lemma approve_announced: "startsWith (js ''approve_'' @ x) (js ''approve_'')"
  by (simp add: js_def)


section \<open>The payment reference\<close>

text \<open>
  C5, as the code has it. An approval at the clock reading \<open>now\<close> of a target with
  an identifier \<open>t\<close> that is not negative (and below \<open>2^53\<close>) mints the prefix, the
  clock reading, a dash and \<open>t\<close>: the last dash-delimited piece of the reference is
  \<open>t\<close> in decimal, and the webhook's reading of it is exactly \<open>t\<close>. Two references
  are equal exactly when they come from the same clock reading and the same target, so
  approvals that differ in the target or in the millisecond mint different references.
  The approval of \<open>index.js\<close> stores that reference in the target's session.
\<close>

theorem minted_reference_names_its_owner:
  assumes "0 \<le> t" and "t < 2 ^ 53"
  shows "pop (split (new_tx_ref p now t) 0x2D) = Some (js_String t) \<and>
         owner_of (new_tx_ref p now t) = Num t \<and>
         (\<forall>now' t'. new_tx_ref p now t = new_tx_ref p now' t' \<longleftrightarrow> now = now' \<and> t = t') \<and>
         (\<forall>u. users s t = Some u \<longrightarrow>
            (\<exists>u'. users (fst (callback_query IndexJs ADMIN_ID e now
                      \<lparr>query_from = sender, query_data = js ''approve_'' @ js_String t\<rparr> s)) t = Some u' \<and>
                  status u' = approved \<and>
                  tx_ref u' = Some (new_tx_ref (js ''tx-'') now t)))"
proof (intro conjI allI impI)
  have shape: "new_tx_ref p now t = (p @ js_String now) @ 0x2D # js_String t"
    by (simp add: new_tx_ref_def js_def)
  have "0x2D \<notin> set (js_String t)"
    using assms(1) by (simp add: js_String_def digits_free_of dash_is_no_digit)
  then show last: "pop (split (new_tx_ref p now t) 0x2D) = Some (js_String t)"
    unfolding shape by (rule pop_split_suffix)
  have "\<bar>t\<bar> < 2 ^ 53" using assms by simp
  then show "owner_of (new_tx_ref p now t) = Num t"
    by (simp add: owner_of_def last js_Number_js_String)
next
  fix now' t'
  show "new_tx_ref p now t = new_tx_ref p now' t' \<longleftrightarrow> now = now' \<and> t = t'"
    by (rule new_tx_ref_inj)
next
  fix u
  assume found: "users s t = Some u"
  have "\<bar>t\<bar> < 2 ^ 53" using assms by simp
  then have target: "target_of (js ''approve_'' @ js_String t) = Num t"
    by (rule target_of_approve)
  show "\<exists>u'. users (fst (callback_query IndexJs ADMIN_ID e now
            \<lparr>query_from = sender, query_data = js ''approve_'' @ js_String t\<rparr> s)) t = Some u' \<and>
          status u' = approved \<and> tx_ref u' = Some (new_tx_ref (js ''tx-'') now t)"
    using found target approve_announced
    by (simp add: callback_query_def callback_query_index_def Let_def split: prod.splits)
qed


theorem minted_reference_names_its_owner_witness:
  "pop (split (new_tx_ref (js ''tx-'') 1700003600000 42) 0x2D) = Some (js ''42'') \<and>
   owner_of (new_tx_ref (js ''tx-'') 1700003600000 42) = Num 42 \<and>
   new_tx_ref (js ''tx-'') 1700003600000 42 \<noteq> new_tx_ref (js ''tx-'') 1700003600001 42 \<and>
   map_option tx_ref
     (users (fst (callback_query IndexJs 1 example_env 1700003600000
        \<lparr>query_from = 1, query_data = js ''approve_42''\<rparr> example_state)) 42) =
     Some (Some (js ''tx-1700003600000-42''))"
proof -
  have range: "(0::int) \<le> 42" "(42::int) < 2 ^ 53" by simp_all
  have found: "users example_state 42 = Some example_session"
    by (simp add: example_state_def)
  have written: "js_String 42 = js ''42''" "js ''approve_'' @ js_String 42 = js ''approve_42''"
    "new_tx_ref (js ''tx-'') 1700003600000 42 = js ''tx-1700003600000-42''"
    by (simp_all add: new_tx_ref_def js_String_def digits.simps digit_unit_def js_def)
  note fact = minted_reference_names_its_owner
    [OF range, of "js ''tx-''" 1700003600000 example_state 1 example_env 1]
  from fact have "new_tx_ref (js ''tx-'') 1700003600000 42 \<noteq> new_tx_ref (js ''tx-'') 1700003600001 42"
    by simp
  moreover from fact found obtain u' where
    "users (fst (callback_query IndexJs 1 example_env 1700003600000
        \<lparr>query_from = 1, query_data = js ''approve_'' @ js_String 42\<rparr> example_state)) 42 = Some u'"
    "tx_ref u' = Some (new_tx_ref (js ''tx-'') 1700003600000 42)"
    by blast
  ultimately show ?thesis
    using fact written by simp
qed


text \<open>
  C5 as it was stated fails twice. A chat identifier can be negative (a group
  chat): the sign is then read as one more dash and the webhook recovers the identifier
  without its sign, which is another chat. And the reference is a function of the clock
  and the target: a second approval of the same target within the same millisecond
  mints the reference of the first once more.
\<close>

theorem minted_reference_counterexample:
  "owner_of (new_tx_ref (js ''tx-'') 1700003600000 (- 1001234567890)) = Num 1001234567890 \<and>
   callback_query IndexJs 1 example_env 1700003600000
     \<lparr>query_from = 1, query_data = js ''approve_42''\<rparr>
     (example_state\<lparr>users := [42 \<mapsto> example_session\<lparr>status := pending_review, tx_ref := None\<rparr>]\<rparr>) =
   (example_state\<lparr>users := [42 \<mapsto> example_session\<lparr>status := approved,
       tx_ref := Some (js ''tx-1700003600000-42'')\<rparr>]\<rparr>,
    [Edit MarkApproved, Answer TeacherApproved, Send (Chat 42) (PaymentLink 99)], Returned) \<and>
   callback_query IndexJs 1 example_env 1700003600000
     \<lparr>query_from = 1, query_data = js ''approve_42''\<rparr>
     (example_state\<lparr>users := [42 \<mapsto> example_session\<lparr>status := approved,
       tx_ref := Some (js ''tx-1700003600000-42'')\<rparr>]\<rparr>) =
   (example_state\<lparr>users := [42 \<mapsto> example_session\<lparr>status := approved,
       tx_ref := Some (js ''tx-1700003600000-42'')\<rparr>]\<rparr>,
    [Edit MarkApproved, Answer TeacherApproved, Send (Chat 42) (PaymentLink 99)], Returned)"
  by (simp add: callback_query_def callback_query_index_def target_of_def owner_of_def
      js_Number_def unsigned_literal_def decimal_value_def digit_value_def is_digit_def
      is_space_def trim_def getFee_def hours_since_def new_tx_ref_def js_String_def digits.simps
      digit_unit_def request_checkout_index_def example_env_def example_state_def
      example_session_def PRICING_STANDARD_def PRICING_PENALTY_def js_def)

section \<open>How far one message moves a session\<close>

lemma status_or_about_keeps:
  "status_or_about v now c txt w = (w', fx) \<Longrightarrow> step w' = step w \<and> status w' = status w"
  by (auto simp: status_or_about_def getFee_def split: option.splits prod.splits if_splits)

lemma step_input_moves:
  assumes "step_input v now m u = (u', fx, r)"
  shows "step u' = step u \<or>
         (\<exists>a b. step u = Some a \<and> step u' = Some b \<and> step_index b = Suc (step_index a))"
  using assms
  by (auto simp: step_input_def Let_def dest!: status_or_about_keeps
      split: if_splits option.splits sum.splits prod.splits)

lemma on_user_message_moves:
  assumes "on_user_message v now m u = (u', fx, r)"
  shows "step u' = step u \<or>
     (\<exists>a b. step u = Some a \<and> step u' = Some b \<and> step_index b = Suc (step_index a) \<and>
        msg_text m \<noteq> Some (REGISTER v) \<and> msg_text m \<noteq> Some (CANCEL v) \<and>
        msg_text m \<noteq> Some (BACK v)) \<or>
     (msg_text m = Some (BACK v) \<and>
        (\<exists>a b. step u = Some a \<and> step u' = Some b \<and> step_index a = Suc (step_index b))) \<or>
     (msg_text m = Some (CANCEL v) \<and> step u' = None) \<or>
     (msg_text m = Some (REGISTER v) \<and> status u \<noteq> pending_review \<and> status u \<noteq> approved \<and>
        status u \<noteq> payment_verified \<and> step u' = Some step_name)"
proof (cases "msg_text m = Some (REGISTER v) \<or> msg_text m = Some (CANCEL v) \<or>
    msg_text m = Some (BACK v)")
  case True
  with assms show ?thesis
    by (auto simp: on_user_message_def Let_def split: if_splits)
next
  case False
  with assms have "step_input v now m u = (u', fx, r)"
    by (simp add: on_user_message_def Let_def)
  from step_input_moves [OF this] False show ?thesis by blast
qed


lemma on_message_session:
  assumes "users s c = Some u"
  shows "users (fst (on_message v A e now m s)) c = Some u \<or>
     (c = msg_chat m \<and>
      (\<exists>u' fx r. on_user_message v now m (u\<lparr>lastActivity := Some now\<rparr>) = (u', fx, r) \<and>
         users (fst (on_message v A e now m s)) c = Some u'))"
proof -
  obtain u' fx r where run: "on_user_message v now m (u\<lparr>lastActivity := Some now\<rparr>) = (u', fx, r)"
    by (cases "on_user_message v now m (u\<lparr>lastActivity := Some now\<rparr>)") auto
  show ?thesis
    using assms run
    by (auto simp: on_message_def Let_def split: prod.splits option.splits if_splits)
qed

lemmas run_message =
  on_message_def on_user_message_def step_input_def status_or_about_def phone_input_def
  checkRateLimit_def RATE_LIMIT_WINDOW_def MAX_REQUESTS_def reply_target_def
  REGISTER_def CANCEL_def BACK_def MY_STATUS_def ABOUT_def
  example_state_def example_session_def example_env_def js_def

text \<open>
  C6, as the code has it. Whatever the state, one run of the message handler leaves
  every stored session stored, and its step either stays, or advances by exactly one
  place of the sequence (on a message that is none of the three control buttons), or
  goes back by exactly one place on the back button, or is reset to none on the cancel
  button, or restarts at \<open>name\<close> on the register button, from whatever step it was,
  unless the status is \<open>pending_review\<close>, \<open>approved\<close> or \<open>payment_verified\<close>. The
  handler of \<open>/start\<close> leaves the step or replaces the session by a fresh one that
  has none.
\<close>

theorem step_moves_one_place:
  assumes "users s c = Some u"
  shows "(\<exists>u'. users (fst (on_message v ADMIN_ID e now m s)) c = Some u' \<and>
           (step u' = step u \<or>
            (\<exists>a b. step u = Some a \<and> step u' = Some b \<and> step_index b = Suc (step_index a) \<and>
               msg_text m \<noteq> Some (REGISTER v) \<and> msg_text m \<noteq> Some (CANCEL v) \<and>
               msg_text m \<noteq> Some (BACK v)) \<or>
            (msg_text m = Some (BACK v) \<and>
               (\<exists>a b. step u = Some a \<and> step u' = Some b \<and> step_index a = Suc (step_index b))) \<or>
            (msg_text m = Some (CANCEL v) \<and> step u' = None) \<or>
            (msg_text m = Some (REGISTER v) \<and> status u \<noteq> pending_review \<and>
               status u \<noteq> approved \<and> status u \<noteq> payment_verified \<and>
               step u' = Some step_name))) \<and>
         (\<exists>u'. users (fst (on_start now m s)) c = Some u' \<and> (step u' = step u \<or> step u' = None))"
proof
  from on_message_session [OF assms, of v ADMIN_ID e now m]
  consider (same) "users (fst (on_message v ADMIN_ID e now m s)) c = Some u"
    | (handled) u' fx r where
        "on_user_message v now m (u\<lparr>lastActivity := Some now\<rparr>) = (u', fx, r)"
        "users (fst (on_message v ADMIN_ID e now m s)) c = Some u'"
    by blast
  then show "\<exists>u'. users (fst (on_message v ADMIN_ID e now m s)) c = Some u' \<and>
           (step u' = step u \<or>
            (\<exists>a b. step u = Some a \<and> step u' = Some b \<and> step_index b = Suc (step_index a) \<and>
               msg_text m \<noteq> Some (REGISTER v) \<and> msg_text m \<noteq> Some (CANCEL v) \<and>
               msg_text m \<noteq> Some (BACK v)) \<or>
            (msg_text m = Some (BACK v) \<and>
               (\<exists>a b. step u = Some a \<and> step u' = Some b \<and> step_index a = Suc (step_index b))) \<or>
            (msg_text m = Some (CANCEL v) \<and> step u' = None) \<or>
            (msg_text m = Some (REGISTER v) \<and> status u \<noteq> pending_review \<and>
               status u \<noteq> approved \<and> status u \<noteq> payment_verified \<and>
               step u' = Some step_name))"
  proof cases
    case same
    then show ?thesis by simp
  next
    case handled
    from on_user_message_moves [OF handled(1)] handled(2) show ?thesis by simp
  qed
next
  show "\<exists>u'. users (fst (on_start now m s)) c = Some u' \<and> (step u' = step u \<or> step u' = None)"
    using assms
    by (auto simp: on_start_def fresh_session_def Let_def split: prod.splits)
qed

theorem step_moves_one_place_witness:
  "map_option step (users (fst (on_message IndexJs 1 example_env 1700003600000
      \<lparr>msg_chat = 42, msg_from = 42, msg_text = Some (js ''Jane Doe''), msg_contact = None\<rparr>
      (example_state\<lparr>users := [42 \<mapsto> example_session\<lparr>step := Some step_name,
         status := collecting\<rparr>]\<rparr>))) 42) = Some (Some step_phone) \<and>
   map_option step (users (fst (on_message IndexJs 1 example_env 1700003600000
      \<lparr>msg_chat = 42, msg_from = 42, msg_text = Some (BACK IndexJs), msg_contact = None\<rparr>
      (example_state\<lparr>users := [42 \<mapsto> example_session\<lparr>step := Some step_email,
         status := collecting\<rparr>]\<rparr>))) 42) = Some (Some step_youtube) \<and>
   (\<exists>u'. users (fst (on_start 1700003600000
      \<lparr>msg_chat = 42, msg_from = 42, msg_text = Some (js ''/start''), msg_contact = None\<rparr>
      example_state)) 42 = Some u' \<and> step u' = None)"
proof -
  let ?m = "\<lparr>msg_chat = 42, msg_from = 42, msg_text = Some (js ''/start''), msg_contact = None\<rparr>"
  have found: "users example_state 42 = Some example_session"
    by (simp add: example_state_def)
  have started: "step example_session \<noteq> None"
    by (simp add: example_session_def)
  have one: "map_option step (users (fst (on_message IndexJs 1 example_env 1700003600000
      \<lparr>msg_chat = 42, msg_from = 42, msg_text = Some (js ''Jane Doe''), msg_contact = None\<rparr>
      (example_state\<lparr>users := [42 \<mapsto> example_session\<lparr>step := Some step_name,
         status := collecting\<rparr>]\<rparr>))) 42) = Some (Some step_phone)"
    by (simp add: run_message)
  have two: "map_option step (users (fst (on_message IndexJs 1 example_env 1700003600000
      \<lparr>msg_chat = 42, msg_from = 42, msg_text = Some (BACK IndexJs), msg_contact = None\<rparr>
      (example_state\<lparr>users := [42 \<mapsto> example_session\<lparr>step := Some step_email,
         status := collecting\<rparr>]\<rparr>))) 42) = Some (Some step_youtube)"
    by (simp add: run_message)
  have fresh: "users (fst (on_start 1700003600000 ?m example_state)) 42 =
      Some (fresh_session 1700003600000)"
    by (simp add: on_start_def checkRateLimit_def RATE_LIMIT_WINDOW_def MAX_REQUESTS_def
        example_state_def)
  from step_moves_one_place [OF found, of IndexJs 1 example_env 1700003600000 ?m]
  obtain u' where "users (fst (on_start 1700003600000 ?m example_state)) 42 = Some u'"
    and "step u' = step example_session \<or> step u' = None"
    by blast
  with fresh started have "\<exists>u'. users (fst (on_start 1700003600000 ?m example_state)) 42 = Some u' \<and>
      step u' = None"
    by (simp add: fresh_session_def)
  with one two show ?thesis by simp
qed

text \<open>
  C6 as it was stated leaves the register button out: pressed at the email
  step, it takes the session three places back, to \<open>name\<close>.
\<close>

theorem step_moves_counterexample:
  "map_option step (users (fst (on_message IndexJs 1 example_env 1700003600000
      \<lparr>msg_chat = 42, msg_from = 42, msg_text = Some (REGISTER IndexJs), msg_contact = None\<rparr>
      (example_state\<lparr>users := [42 \<mapsto> example_session\<lparr>step := Some step_email,
         status := collecting\<rparr>]\<rparr>))) 42) = Some (Some step_name) \<and>
   snd (on_message IndexJs 1 example_env 1700003600000
      \<lparr>msg_chat = 42, msg_from = 42, msg_text = Some (REGISTER IndexJs), msg_contact = None\<rparr>
      (example_state\<lparr>users := [42 \<mapsto> example_session\<lparr>step := Some step_email,
         status := collecting\<rparr>]\<rparr>)) = ([Send (Chat 42) PromptName], Returned) \<and>
   step_index step_email = 3 \<and> step_index step_name = 0"
  by (simp add: run_message)

section \<open>The name step\<close>

lemma on_message_reaches_session:
  assumes "users s (msg_chat m) = Some u"
    and "fst (checkRateLimit now (msg_chat m) (rateLimit s))"
    and "msg_from m = ADMIN_ID \<longrightarrow> reply_target (adminReplyTarget s) = None"
    and "on_user_message v now m (u\<lparr>lastActivity := Some now\<rparr>) = (u', fx, r)"
  shows "on_message v ADMIN_ID e now m s =
     (s\<lparr>rateLimit := snd (checkRateLimit now (msg_chat m) (rateLimit s)),
        users := (users s)(msg_chat m \<mapsto> u')\<rparr>, fx, r)"
  using assms by (auto simp: on_message_def Let_def split: prod.splits)

text \<open>
  C9, as the code has it. At the name step, for a message that passes the rate limit,
  is not a reviewer's pending reply and is none of the three control buttons: the
  text is accepted if and only if it is there and its length, untrimmed, is at least
  2. Then the trimmed text is stored as the name and the step becomes \<open>phone\<close>.
  Otherwise the actor is asked again and the session keeps its step and its fields
  (only the stamp of the last activity is new, as for every message).
\<close>

theorem name_step_checks_raw_length:
  assumes "users s (msg_chat m) = Some u" and "step u = Some step_name"
    and "fst (checkRateLimit now (msg_chat m) (rateLimit s))"
    and "msg_from m = ADMIN_ID \<longrightarrow> reply_target (adminReplyTarget s) = None"
    and "msg_text m \<noteq> Some (REGISTER v)" and "msg_text m \<noteq> Some (CANCEL v)"
    and "msg_text m \<noteq> Some (BACK v)"
  shows "(\<forall>t. msg_text m = Some t \<and> 2 \<le> length t \<longrightarrow>
            on_message v ADMIN_ID e now m s =
              (s\<lparr>rateLimit := snd (checkRateLimit now (msg_chat m) (rateLimit s)),
                 users := (users s)(msg_chat m \<mapsto>
                   u\<lparr>lastActivity := Some now, name := Some (trim t), step := Some step_phone\<rparr>)\<rparr>,
               [Send (Chat (msg_chat m)) PromptPhone], Returned)) \<and>
         (msg_text m = None \<or> (\<exists>t. msg_text m = Some t \<and> length t < 2) \<longrightarrow>
            on_message v ADMIN_ID e now m s =
              (s\<lparr>rateLimit := snd (checkRateLimit now (msg_chat m) (rateLimit s)),
                 users := (users s)(msg_chat m \<mapsto> u\<lparr>lastActivity := Some now\<rparr>)\<rparr>,
               [Send (Chat (msg_chat m)) InvalidName], Returned))"
proof (intro conjI allI impI)
  fix t
  assume "msg_text m = Some t \<and> 2 \<le> length t"
  with assms(2,5-7)
  have "on_user_message v now m (u\<lparr>lastActivity := Some now\<rparr>) =
      (u\<lparr>lastActivity := Some now, name := Some (trim t), step := Some step_phone\<rparr>,
       [Send (Chat (msg_chat m)) PromptPhone], Returned)"
    by (simp add: on_user_message_def step_input_def)
  from on_message_reaches_session [OF assms(1,3,4) this]
  show "on_message v ADMIN_ID e now m s =
      (s\<lparr>rateLimit := snd (checkRateLimit now (msg_chat m) (rateLimit s)),
         users := (users s)(msg_chat m \<mapsto>
           u\<lparr>lastActivity := Some now, name := Some (trim t), step := Some step_phone\<rparr>)\<rparr>,
       [Send (Chat (msg_chat m)) PromptPhone], Returned)" .
next
  assume "msg_text m = None \<or> (\<exists>t. msg_text m = Some t \<and> length t < 2)"
  with assms(2,5-7)
  have "on_user_message v now m (u\<lparr>lastActivity := Some now\<rparr>) =
      (u\<lparr>lastActivity := Some now\<rparr>, [Send (Chat (msg_chat m)) InvalidName], Returned)"
    by (auto simp: on_user_message_def step_input_def)
  from on_message_reaches_session [OF assms(1,3,4) this]
  show "on_message v ADMIN_ID e now m s =
      (s\<lparr>rateLimit := snd (checkRateLimit now (msg_chat m) (rateLimit s)),
         users := (users s)(msg_chat m \<mapsto> u\<lparr>lastActivity := Some now\<rparr>)\<rparr>,
       [Send (Chat (msg_chat m)) InvalidName], Returned)" .
qed

theorem name_step_checks_raw_length_witness:
  "map_option name (users (fst (on_message IndexJs 1 example_env 1700003600000
      \<lparr>msg_chat = 42, msg_from = 42, msg_text = Some (js '' Jane Doe ''), msg_contact = None\<rparr>
      (example_state\<lparr>users := [42 \<mapsto> example_session\<lparr>step := Some step_name,
         status := collecting, name := None\<rparr>]\<rparr>))) 42) = Some (Some (js ''Jane Doe'')) \<and>
   snd (on_message IndexJs 1 example_env 1700003600000
      \<lparr>msg_chat = 42, msg_from = 42, msg_text = Some (js '' Jane Doe ''), msg_contact = None\<rparr>
      (example_state\<lparr>users := [42 \<mapsto> example_session\<lparr>step := Some step_name,
         status := collecting, name := None\<rparr>]\<rparr>)) = ([Send (Chat 42) PromptPhone], Returned) \<and>
   map_option step (users (fst (on_message Part001 1 example_env 1700003600000
      \<lparr>msg_chat = 42, msg_from = 42, msg_text = Some (js ''J''), msg_contact = None\<rparr>
      (example_state\<lparr>users := [42 \<mapsto> example_session\<lparr>step := Some step_name,
         status := collecting, name := None\<rparr>]\<rparr>))) 42) = Some (Some step_name) \<and>
   snd (on_message Part001 1 example_env 1700003600000
      \<lparr>msg_chat = 42, msg_from = 42, msg_text = Some (js ''J''), msg_contact = None\<rparr>
      (example_state\<lparr>users := [42 \<mapsto> example_session\<lparr>step := Some step_name,
         status := collecting, name := None\<rparr>]\<rparr>)) = ([Send (Chat 42) InvalidName], Returned)"
proof -
  let ?u = "example_session\<lparr>step := Some step_name, status := collecting, name := None\<rparr>"
  let ?s = "example_state\<lparr>users := [42 \<mapsto> ?u]\<rparr>"
  let ?m1 = "\<lparr>msg_chat = 42, msg_from = 42, msg_text = Some (js '' Jane Doe ''), msg_contact = None\<rparr>"
  let ?m2 = "\<lparr>msg_chat = 42, msg_from = 42, msg_text = Some (js ''J''), msg_contact = None\<rparr>"
  have found: "users ?s (msg_chat ?m1) = Some ?u" "users ?s (msg_chat ?m2) = Some ?u"
    by simp_all
  have at_name: "step ?u = Some step_name" by simp
  have allowed: "fst (checkRateLimit 1700003600000 (msg_chat ?m1) (rateLimit ?s))"
    "fst (checkRateLimit 1700003600000 (msg_chat ?m2) (rateLimit ?s))"
    by (simp_all add: checkRateLimit_def RATE_LIMIT_WINDOW_def MAX_REQUESTS_def example_state_def)
  have actor: "msg_from ?m1 = 1 \<longrightarrow> reply_target (adminReplyTarget ?s) = None"
    "msg_from ?m2 = 1 \<longrightarrow> reply_target (adminReplyTarget ?s) = None"
    by simp_all
  have plain1: "msg_text ?m1 \<noteq> Some (REGISTER IndexJs)" "msg_text ?m1 \<noteq> Some (CANCEL IndexJs)"
    "msg_text ?m1 \<noteq> Some (BACK IndexJs)"
    by (simp_all add: REGISTER_def CANCEL_def BACK_def js_def)
  have plain2: "msg_text ?m2 \<noteq> Some (REGISTER Part001)" "msg_text ?m2 \<noteq> Some (CANCEL Part001)"
    "msg_text ?m2 \<noteq> Some (BACK Part001)"
    by (simp_all add: REGISTER_def CANCEL_def BACK_def js_def)
  have long: "msg_text ?m1 = Some (js '' Jane Doe '') \<and> 2 \<le> length (js '' Jane Doe '')"
    by (simp add: js_def)
  have short: "msg_text ?m2 = Some (js ''J'') \<and> length (js ''J'') < 2"
    by (simp add: js_def)
  have trimmed: "trim (js '' Jane Doe '') = js ''Jane Doe''"
    by (simp add: trim_def is_space_def js_def)
  from name_step_checks_raw_length
    [OF found(1) at_name allowed(1) actor(1) plain1, of example_env] long
  have one: "on_message IndexJs 1 example_env 1700003600000 ?m1 ?s =
      (?s\<lparr>rateLimit := snd (checkRateLimit 1700003600000 (msg_chat ?m1) (rateLimit ?s)),
          users := (users ?s)(msg_chat ?m1 \<mapsto>
            ?u\<lparr>lastActivity := Some 1700003600000, name := Some (trim (js '' Jane Doe '')),
               step := Some step_phone\<rparr>)\<rparr>,
       [Send (Chat (msg_chat ?m1)) PromptPhone], Returned)"
    by blast
  from name_step_checks_raw_length
    [OF found(2) at_name allowed(2) actor(2) plain2, of example_env] short
  have two: "on_message Part001 1 example_env 1700003600000 ?m2 ?s =
      (?s\<lparr>rateLimit := snd (checkRateLimit 1700003600000 (msg_chat ?m2) (rateLimit ?s)),
          users := (users ?s)(msg_chat ?m2 \<mapsto> ?u\<lparr>lastActivity := Some 1700003600000\<rparr>)\<rparr>,
       [Send (Chat (msg_chat ?m2)) InvalidName], Returned)"
    by blast
  show ?thesis
    unfolding one two by (simp add: trimmed)
qed

text \<open>
  C9 as it was stated tests the trimmed length. Two spaces have length 2 and
  trimmed length 0: the code accepts them, stores the empty name and moves on to the
  phone step.
\<close>

theorem name_step_counterexample:
  "length (js ''  '') = 2 \<and> length (trim (js ''  '')) = 0 \<and>
   map_option name (users (fst (on_message IndexJs 1 example_env 1700003600000
      \<lparr>msg_chat = 42, msg_from = 42, msg_text = Some (js ''  ''), msg_contact = None\<rparr>
      (example_state\<lparr>users := [42 \<mapsto> example_session\<lparr>step := Some step_name,
         status := collecting, name := None\<rparr>]\<rparr>))) 42) = Some (Some []) \<and>
   map_option step (users (fst (on_message IndexJs 1 example_env 1700003600000
      \<lparr>msg_chat = 42, msg_from = 42, msg_text = Some (js ''  ''), msg_contact = None\<rparr>
      (example_state\<lparr>users := [42 \<mapsto> example_session\<lparr>step := Some step_name,
         status := collecting, name := None\<rparr>]\<rparr>))) 42) = Some (Some step_phone) \<and>
   snd (on_message IndexJs 1 example_env 1700003600000
      \<lparr>msg_chat = 42, msg_from = 42, msg_text = Some (js ''  ''), msg_contact = None\<rparr>
      (example_state\<lparr>users := [42 \<mapsto> example_session\<lparr>step := Some step_name,
         status := collecting, name := None\<rparr>]\<rparr>)) = ([Send (Chat 42) PromptPhone], Returned)"
  by (simp add: run_message trim_def is_space_def)

section \<open>The email step on a message without text\<close>

text \<open>
  C10, as the code has it. At the email step, a message without text (a shared contact,
  a picture) that passes the rate limit and is not a reviewer's pending reply makes the
  validator raise a TypeError, in every variant: the handler sends nothing, no
  validation message either, and ends with the exception. The session keeps its step
  and every collected field; the stamp of the last activity, written before the steps
  are looked at, is new.
\<close>

theorem email_step_without_text_throws:
  assumes "users s (msg_chat m) = Some u" and "step u = Some step_email"
    and "msg_text m = None"
    and "fst (checkRateLimit now (msg_chat m) (rateLimit s))"
    and "msg_from m = ADMIN_ID \<longrightarrow> reply_target (adminReplyTarget s) = None"
  shows "isValidEmail v (msg_text m) = Inl TypeError \<and>
         on_message v ADMIN_ID e now m s =
           (s\<lparr>rateLimit := snd (checkRateLimit now (msg_chat m) (rateLimit s)),
              users := (users s)(msg_chat m \<mapsto> u\<lparr>lastActivity := Some now\<rparr>)\<rparr>,
            [], Threw TypeError)"
proof
  show "isValidEmail v (msg_text m) = Inl TypeError"
    using assms(3) by (simp add: isValidEmail_def)
  from assms(2,3)
  have "on_user_message v now m (u\<lparr>lastActivity := Some now\<rparr>) =
      (u\<lparr>lastActivity := Some now\<rparr>, [], Threw TypeError)"
    by (simp add: on_user_message_def step_input_def isValidEmail_def)
  from on_message_reaches_session [OF assms(1,4,5) this]
  show "on_message v ADMIN_ID e now m s =
      (s\<lparr>rateLimit := snd (checkRateLimit now (msg_chat m) (rateLimit s)),
         users := (users s)(msg_chat m \<mapsto> u\<lparr>lastActivity := Some now\<rparr>)\<rparr>,
       [], Threw TypeError)" .
qed

theorem email_step_without_text_throws_witness:
  "isValidEmail IndexJs None = Inl TypeError \<and>
   map_option step (users (fst (on_message IndexJs 1 example_env 1700003600000
      \<lparr>msg_chat = 42, msg_from = 42, msg_text = None,
        msg_contact = Some \<lparr>contact_user_id = Some 42, phone_number = js ''0912345678''\<rparr>\<rparr>
      (example_state\<lparr>users := [42 \<mapsto> example_session\<lparr>step := Some step_email,
         status := collecting, email := None\<rparr>]\<rparr>))) 42) = Some (Some step_email) \<and>
   snd (on_message IndexJs 1 example_env 1700003600000
      \<lparr>msg_chat = 42, msg_from = 42, msg_text = None,
        msg_contact = Some \<lparr>contact_user_id = Some 42, phone_number = js ''0912345678''\<rparr>\<rparr>
      (example_state\<lparr>users := [42 \<mapsto> example_session\<lparr>step := Some step_email,
         status := collecting, email := None\<rparr>]\<rparr>)) = ([], Threw TypeError)"
proof -
  let ?u = "example_session\<lparr>step := Some step_email, status := collecting, email := None\<rparr>"
  let ?s = "example_state\<lparr>users := [42 \<mapsto> ?u]\<rparr>"
  let ?m = "\<lparr>msg_chat = 42, msg_from = 42, msg_text = None,
    msg_contact = Some \<lparr>contact_user_id = Some 42, phone_number = js ''0912345678''\<rparr>\<rparr>"
  have found: "users ?s (msg_chat ?m) = Some ?u" by simp
  have at_email: "step ?u = Some step_email" by simp
  have no_text: "msg_text ?m = None" by simp
  have allowed: "fst (checkRateLimit 1700003600000 (msg_chat ?m) (rateLimit ?s))"
    by (simp add: checkRateLimit_def RATE_LIMIT_WINDOW_def MAX_REQUESTS_def example_state_def)
  have actor: "msg_from ?m = 1 \<longrightarrow> reply_target (adminReplyTarget ?s) = None"
    by simp
  from email_step_without_text_throws
    [OF found at_email no_text allowed actor, of IndexJs example_env]
  show ?thesis by simp
qed

text \<open>
  C10 as it was stated has the session unmutated. The handler stamps
  \<open>lastActivity\<close> on every message of an actor with a session, before it looks at the
  buttons and the steps, so the session differs from the one before when the exception
  is raised.
\<close>

theorem email_step_without_text_counterexample:
  "snd (on_message IndexJs 1 example_env 1700003600000
      \<lparr>msg_chat = 42, msg_from = 42, msg_text = None,
        msg_contact = Some \<lparr>contact_user_id = Some 42, phone_number = js ''0912345678''\<rparr>\<rparr>
      (example_state\<lparr>users := [42 \<mapsto> example_session\<lparr>step := Some step_email,
         status := collecting, email := None\<rparr>]\<rparr>)) = ([], Threw TypeError) \<and>
   map_option lastActivity (users (example_state\<lparr>users := [42 \<mapsto> example_session\<lparr>
      step := Some step_email, status := collecting, email := None\<rparr>]\<rparr>) 42) =
     Some (Some 1700000000000) \<and>
   map_option lastActivity (users (fst (on_message IndexJs 1 example_env 1700003600000
      \<lparr>msg_chat = 42, msg_from = 42, msg_text = None,
        msg_contact = Some \<lparr>contact_user_id = Some 42, phone_number = js ''0912345678''\<rparr>\<rparr>
      (example_state\<lparr>users := [42 \<mapsto> example_session\<lparr>step := Some step_email,
         status := collecting, email := None\<rparr>]\<rparr>))) 42) = Some (Some 1700003600000)"
  by (simp add: run_message isValidEmail_def)

end
